theory Spec2Isabelle
  imports Complex_Main "HOL-Library.AList"
begin

section \<open>Numbers, strings and objects of the host language\<close>

text \<open>
  The dashboard is TypeScript. Its aggregation routines are the four \<open>useMemo\<close> bodies
  \<open>regionalMetrics\<close>, \<open>deviceMetrics\<close>, \<open>weeklyMetrics\<close> and \<open>demographicMetrics\<close>; each is a
  pure function of the loaded dataset and is embedded below as a HOL function.

  Numbers. The dataset arrives as JSON, so every number in it is finite; it is modelled as a
  rational and arithmetic on it is exact (the rounding of IEEE doubles is not modelled).
  Every division of the aggregators but one is guarded by a test that the divisor is
  positive. The unguarded one, \<open>percentage_of_traffic\<close> of the device view, can divide by
  zero, so its result is a \<open>jsnum\<close>: a finite number, \<open>NaN\<close> or an infinity.
\<close>

datatype jsnum = Fin rat | NaN | PosInf | NegInf

text \<open>
  \<open>a / b\<close> on finite numbers. A sum of the aggregators is never the negative zero (each starts
  from \<open>0\<close>, and \<open>0 + -0\<close> as well as \<open>x + -x\<close> are \<open>+0\<close>), so a zero divisor is \<open>+0\<close> and the
  sign of the quotient is the sign of the dividend.
\<close>

definition js_div :: "rat \<Rightarrow> rat \<Rightarrow> jsnum" where
  "js_div a b =
     (if b \<noteq> 0 then Fin (a / b)
      else if a > 0 then PosInf
      else if a < 0 then NegInf
      else NaN)"

text \<open>\<open>x * c\<close> for a finite \<open>c\<close>.\<close>

fun js_times :: "jsnum \<Rightarrow> rat \<Rightarrow> jsnum" where
  "js_times (Fin x) c = Fin (x * c)"
| "js_times NaN c = NaN"
| "js_times PosInf c = (if c > 0 then PosInf else if c < 0 then NegInf else NaN)"
| "js_times NegInf c = (if c > 0 then NegInf else if c < 0 then PosInf else NaN)"

text \<open>
  Objects used as dictionaries (\<open>regionMap\<close>, \<open>weeklyMap\<close>, the age-group maps) are association
  lists with distinct keys, in the order in which the keys were first assigned. Reading a
  key is \<open>map_of\<close>; assigning to a key is \<open>AList.update\<close>, which overwrites in place a key
  that is present and appends one that is not.

  The dictionaries are plain object literals, and a plain object inherits the properties
  of \<open>Object.prototype\<close>: under one of the names of \<open>object_prototype_names\<close> the code reads
  the inherited function or object where it reads \<open>undefined\<close> under any other missing key.
  \<open>map_of\<close> is the code's reading of a key that is not inherited. What the code does with an
  inherited key (it opens no group, and writes to the shared prototype) is not modelled,
  and the statements that depend on how a key is read assume that no key is inherited.

  \<open>Object.values\<close> and \<open>Object.entries\<close> enumerate the keys that are array indices
  first, in ascending numeric order, and then all other keys in insertion order.
\<close>

definition object_prototype_names :: "string list" where
  "object_prototype_names =
     [''constructor'', ''__defineGetter__'', ''__defineSetter__'', ''hasOwnProperty'',
      ''__lookupGetter__'', ''__lookupSetter__'', ''isPrototypeOf'', ''propertyIsEnumerable'',
      ''toString'', ''valueOf'', ''__proto__'', ''toLocaleString'']"

definition inherited_key :: "string \<Rightarrow> bool" where
  "inherited_key k = (k \<in> set object_prototype_names)"

definition is_digit :: "char \<Rightarrow> bool" where
  "is_digit c = (48 \<le> (of_char c :: int) \<and> (of_char c :: int) \<le> 57)"

definition decimal_value :: "string \<Rightarrow> int" where
  "decimal_value s = foldl (\<lambda>n c. 10 * n + ((of_char c :: int) - 48)) 0 s"

definition is_array_index :: "string \<Rightarrow> bool" where
  "is_array_index s =
     (s \<noteq> [] \<and> list_all is_digit s \<and> (if hd s = CHR ''0'' then s = ''0'' else True)
      \<and> decimal_value s < 4294967295)"

definition own_property_order :: "(string \<times> 'a) list \<Rightarrow> (string \<times> 'a) list" where
  "own_property_order obj =
     sort_key (\<lambda>p. decimal_value (fst p)) (filter (\<lambda>p. is_array_index (fst p)) obj)
     @ filter (\<lambda>p. \<not> is_array_index (fst p)) obj"

definition object_values :: "(string \<times> 'a) list \<Rightarrow> 'a list" where
  "object_values obj = map snd (own_property_order obj)"

definition object_entries :: "(string \<times> 'a) list \<Rightarrow> (string \<times> 'a) list" where
  "object_entries obj = own_property_order obj"

text \<open>
  \<open>String.prototype.toLowerCase\<close>, on the letters \<open>A\<close> to \<open>Z\<close>. The aggregators compare its
  result with \<open>male\<close> and \<open>female\<close> only, and no character outside \<open>A\<close> to \<open>Z\<close> has one of the
  letters of these two words as its lower case.
\<close>

definition lower_char :: "char \<Rightarrow> char" where
  "lower_char c =
     (case map_of (zip ''ABCDEFGHIJKLMNOPQRSTUVWXYZ'' ''abcdefghijklmnopqrstuvwxyz'') c of
        None \<Rightarrow> c
      | Some l \<Rightarrow> l)"

definition toLowerCase :: "string \<Rightarrow> string" where
  "toLowerCase s = map lower_char s"

section \<open>The dataset\<close>

text \<open>
  Modelled from the spec: the type declarations of \<open>src/types/marketing\<close> (\<open>Campaign\<close>,
  \<open>RegionalPerformance\<close>, \<open>DevicePerformance\<close>, \<open>WeeklyPerformance\<close>, \<open>DemographicBreakdown\<close>)
  are not among the sources. The records carry the fields that section 3 of the
  specification names and that the aggregators read, each field a number or a string as the
  aggregators use it.
\<close>

record RegionalPerformance =
  rp_region :: string
  rp_country :: string
  rp_impressions :: rat
  rp_clicks :: rat
  rp_conversions :: rat
  rp_spend :: rat
  rp_revenue :: rat
  rp_ctr :: rat
  rp_conversion_rate :: rat
  rp_cpc :: rat
  rp_cpa :: rat
  rp_roas :: rat

record DevicePerformance =
  dp_device :: string
  dp_impressions :: rat
  dp_clicks :: rat
  dp_conversions :: rat
  dp_spend :: rat
  dp_revenue :: rat
  dp_ctr :: rat
  dp_conversion_rate :: rat

record WeeklyPerformance =
  wp_week_start :: string
  wp_week_end :: string
  wp_impressions :: rat
  wp_clicks :: rat
  wp_conversions :: rat
  wp_spend :: rat
  wp_revenue :: rat

record Performance =
  pf_impressions :: rat
  pf_clicks :: rat
  pf_conversions :: rat

record DemographicBreakdown =
  db_age_group :: string
  db_gender :: string
  db_percentage_of_audience :: rat
  db_performance :: Performance

record Campaign =
  c_name :: string
  c_spend :: rat
  c_revenue :: rat
  regional_performance :: "RegionalPerformance list"
  device_performance :: "DevicePerformance list"
  weekly_performance :: "WeeklyPerformance list"
  demographic_breakdown :: "DemographicBreakdown list"

text \<open>
  Every aggregator starts with \<open>if (!marketingData?.campaigns)\<close>. Its argument is therefore
  a \<open>Campaign list option\<close>: \<open>None\<close> is the dataset that is absent (not loaded, or without a
  campaign list), \<open>Some []\<close> the dataset with no campaign. An empty array is truthy, so only
  \<open>None\<close> takes the early return.
\<close>

section \<open>The regional aggregator (app/region-view/page.tsx)\<close>

record RegionGroup = RegionalPerformance +
  campaignCount :: nat

record RegionDatum = RegionGroup +
  lat :: "rat option"
  lng :: "rat option"
  rd_value :: rat

record Totals =
  totalRevenue :: rat
  totalSpend :: rat
  totalImpressions :: rat
  totalClicks :: rat
  totalConversions :: rat

record RegionalMetrics = Totals +
  regionalData :: "RegionDatum list"
  topRegion :: "RegionDatum option"

datatype ValueKey = Revenue | Spend

definition UAE_CITY_COORDINATES :: "(string \<times> rat \<times> rat) list" where
  "UAE_CITY_COORDINATES =
     [(''Dubai'', 252048 / 10000, 552708 / 10000),
      (''Sharjah'', 253460 / 10000, 554200 / 10000),
      (''Abu Dhabi'', 244539 / 10000, 543773 / 10000),
      (''Al Ain'', 241302 / 10000, 558023 / 10000),
      (''Ras Al Khaimah'', 256741 / 10000, 559804 / 10000),
      (''Fujairah'', 251288 / 10000, 563265 / 10000),
      (''Ajman'', 254052 / 10000, 555136 / 10000),
      (''Umm Al Quwain'', 255653 / 10000, 555533 / 10000)]"

definition regionKey :: "'a RegionalPerformance_scheme \<Rightarrow> string" where
  "regionKey r = rp_region r @ ''_'' @ rp_country r"

text \<open>\<open>{ ...region, campaignCount: 1 }\<close>: a fresh copy of the entry, its derived fields included.\<close>

definition new_group :: "RegionalPerformance \<Rightarrow> RegionGroup" where
  "new_group r =
     \<lparr>rp_region = rp_region r, rp_country = rp_country r,
      rp_impressions = rp_impressions r, rp_clicks = rp_clicks r,
      rp_conversions = rp_conversions r, rp_spend = rp_spend r, rp_revenue = rp_revenue r,
      rp_ctr = rp_ctr r, rp_conversion_rate = rp_conversion_rate r,
      rp_cpc = rp_cpc r, rp_cpa = rp_cpa r, rp_roas = rp_roas r,
      campaignCount = 1\<rparr>"

text \<open>The \<open>else\<close> branch: add the entry's counters, then recalculate the derived metrics.\<close>

definition add_to_group :: "RegionGroup \<Rightarrow> RegionalPerformance \<Rightarrow> RegionGroup" where
  "add_to_group g region =
     (let r = g\<lparr>rp_impressions := rp_impressions g + rp_impressions region,
                rp_clicks := rp_clicks g + rp_clicks region,
                rp_conversions := rp_conversions g + rp_conversions region,
                rp_spend := rp_spend g + rp_spend region,
                rp_revenue := rp_revenue g + rp_revenue region,
                campaignCount := campaignCount g + 1\<rparr>
      in r\<lparr>rp_ctr := (if rp_impressions r > 0 then (rp_clicks r / rp_impressions r) * 100 else 0),
            rp_conversion_rate :=
              (if rp_clicks r > 0 then (rp_conversions r / rp_clicks r) * 100 else 0),
            rp_cpc := (if rp_clicks r > 0 then rp_spend r / rp_clicks r else 0),
            rp_cpa := (if rp_conversions r > 0 then rp_spend r / rp_conversions r else 0),
            rp_roas := (if rp_spend r > 0 then rp_revenue r / rp_spend r else 0)\<rparr>)"

text \<open>The body of the inner \<open>forEach\<close>.\<close>

definition region_step ::
  "(string \<times> RegionGroup) list \<Rightarrow> RegionalPerformance \<Rightarrow> (string \<times> RegionGroup) list" where
  "region_step regionMap region =
     (case map_of regionMap (regionKey region) of
        None \<Rightarrow> AList.update (regionKey region) (new_group region) regionMap
      | Some g \<Rightarrow> AList.update (regionKey region) (add_to_group g region) regionMap)"

definition build_regionMap :: "Campaign list \<Rightarrow> (string \<times> RegionGroup) list" where
  "build_regionMap campaigns =
     foldl (\<lambda>regionMap campaign. foldl region_step regionMap (regional_performance campaign))
       [] campaigns"

text \<open>\<open>{ ...region, lat: ..., lng: ..., value: region[selectedValueKey] }\<close>.\<close>

definition to_datum :: "ValueKey \<Rightarrow> RegionGroup \<Rightarrow> RegionDatum" where
  "to_datum selectedValueKey g =
     \<lparr>rp_region = rp_region g, rp_country = rp_country g,
      rp_impressions = rp_impressions g, rp_clicks = rp_clicks g,
      rp_conversions = rp_conversions g, rp_spend = rp_spend g, rp_revenue = rp_revenue g,
      rp_ctr = rp_ctr g, rp_conversion_rate = rp_conversion_rate g,
      rp_cpc = rp_cpc g, rp_cpa = rp_cpa g, rp_roas = rp_roas g,
      campaignCount = campaignCount g,
      lat = map_option fst (map_of UAE_CITY_COORDINATES (rp_region g)),
      lng = map_option snd (map_of UAE_CITY_COORDINATES (rp_region g)),
      rd_value = (case selectedValueKey of Revenue \<Rightarrow> rp_revenue g | Spend \<Rightarrow> rp_spend g)\<rparr>"

definition zero_totals :: Totals where
  "zero_totals =
     \<lparr>totalRevenue = 0, totalSpend = 0, totalImpressions = 0, totalClicks = 0,
      totalConversions = 0\<rparr>"

definition region_totals :: "RegionDatum list \<Rightarrow> Totals" where
  "region_totals rows =
     foldl (\<lambda>acc region.
         \<lparr>totalRevenue = totalRevenue acc + rp_revenue region,
          totalSpend = totalSpend acc + rp_spend region,
          totalImpressions = totalImpressions acc + rp_impressions region,
          totalClicks = totalClicks acc + rp_clicks region,
          totalConversions = totalConversions acc + rp_conversions region\<rparr>)
       zero_totals rows"

text \<open>\<open>top?.revenue || 0\<close>: \<open>0\<close> when there is no \<open>top\<close> yet, and when its revenue is \<open>0\<close>.\<close>

fun revenue_or_zero :: "RegionDatum option \<Rightarrow> rat" where
  "revenue_or_zero None = 0"
| "revenue_or_zero (Some t) = (if rp_revenue t = 0 then 0 else rp_revenue t)"

definition top_step :: "RegionDatum option \<Rightarrow> RegionDatum \<Rightarrow> RegionDatum option" where
  "top_step top0 current =
     (if rp_revenue current > revenue_or_zero top0 then Some current else top0)"

definition find_topRegion :: "RegionDatum list \<Rightarrow> RegionDatum option" where
  "find_topRegion rows = foldl top_step None rows"

definition regionalMetrics :: "ValueKey \<Rightarrow> Campaign list option \<Rightarrow> RegionalMetrics" where
  "regionalMetrics selectedValueKey data =
     (case data of
        None \<Rightarrow>
          \<lparr>totalRevenue = 0, totalSpend = 0, totalImpressions = 0, totalClicks = 0,
           totalConversions = 0, regionalData = [], topRegion = None\<rparr>
      | Some campaigns \<Rightarrow>
          (let rows = map (to_datum selectedValueKey) (object_values (build_regionMap campaigns));
               totals = region_totals rows
           in \<lparr>totalRevenue = totalRevenue totals, totalSpend = totalSpend totals,
               totalImpressions = totalImpressions totals, totalClicks = totalClicks totals,
               totalConversions = totalConversions totals,
               regionalData = rows, topRegion = find_topRegion rows\<rparr>))"

section \<open>The device aggregator (app/device-view/page.tsx)\<close>

record DeviceBucket =
  b_impressions :: rat
  b_clicks :: rat
  b_conversions :: rat
  b_spend :: rat
  b_revenue :: rat
  b_ctr :: rat
  b_conversion_rate :: rat
  b_percentage_of_traffic :: jsnum
  b_campaignCount :: nat

record ChartPoint =
  cp_label :: string
  cp_value :: rat
  cp_color :: string

record CampaignDeviceRow =
  row_campaignName :: string
  row_device :: string
  row_impressions :: rat
  row_clicks :: rat
  row_conversions :: rat
  row_spend :: rat
  row_revenue :: rat
  row_ctr :: rat
  row_conversion_rate :: rat
  row_roas :: rat

record DeviceMetrics =
  mobile :: DeviceBucket
  desktop :: DeviceBucket
  deviceComparison :: "ChartPoint list"
  performanceByCampaign :: "CampaignDeviceRow list"
  roasComparison :: "ChartPoint list"
  conversionRateComparison :: "ChartPoint list"

definition zero_bucket :: DeviceBucket where
  "zero_bucket =
     \<lparr>b_impressions = 0, b_clicks = 0, b_conversions = 0, b_spend = 0, b_revenue = 0,
      b_ctr = 0, b_conversion_rate = 0, b_percentage_of_traffic = Fin 0,
      b_campaignCount = 0\<rparr>"

definition add_device :: "DeviceBucket \<Rightarrow> DevicePerformance \<Rightarrow> DeviceBucket" where
  "add_device b device =
     b\<lparr>b_impressions := b_impressions b + dp_impressions device,
       b_clicks := b_clicks b + dp_clicks device,
       b_conversions := b_conversions b + dp_conversions device,
       b_spend := b_spend b + dp_spend device,
       b_revenue := b_revenue b + dp_revenue device,
       b_campaignCount := b_campaignCount b + 1\<rparr>"

definition campaign_row :: "Campaign \<Rightarrow> DevicePerformance \<Rightarrow> CampaignDeviceRow" where
  "campaign_row campaign device =
     \<lparr>row_campaignName = c_name campaign,
      row_device = dp_device device,
      row_impressions = dp_impressions device,
      row_clicks = dp_clicks device,
      row_conversions = dp_conversions device,
      row_spend = dp_spend device,
      row_revenue = dp_revenue device,
      row_ctr = dp_ctr device,
      row_conversion_rate = dp_conversion_rate device,
      row_roas = (if dp_spend device > 0 then dp_revenue device / dp_spend device else 0)\<rparr>"

text \<open>
  The state of the two nested loops: \<open>mobileData\<close>, \<open>desktopData\<close> and
  \<open>performanceByCampaign\<close>. The body of the inner \<open>forEach\<close>:
\<close>

type_synonym DeviceState = "DeviceBucket \<times> DeviceBucket \<times> CampaignDeviceRow list"

definition device_step :: "Campaign \<Rightarrow> DeviceState \<Rightarrow> DevicePerformance \<Rightarrow> DeviceState" where
  "device_step campaign st device =
     (case st of (mobileData, desktopData, rows) \<Rightarrow>
        (if dp_device device = ''Mobile''
           then (add_device mobileData device, desktopData, rows @ [campaign_row campaign device])
         else if dp_device device = ''Desktop''
           then (mobileData, add_device desktopData device, rows @ [campaign_row campaign device])
         else (mobileData, desktopData, rows @ [campaign_row campaign device])))"

definition device_loop :: "Campaign list \<Rightarrow> DeviceState" where
  "device_loop campaigns =
     foldl (\<lambda>st campaign. foldl (device_step campaign) st (device_performance campaign))
       (zero_bucket, zero_bucket, []) campaigns"

text \<open>
  The derived metrics of a bucket; \<open>denominator\<close> is \<open>mobileData.impressions +
  desktopData.impressions\<close>, and the division by it is not guarded.
\<close>

definition finish_bucket :: "DeviceBucket \<Rightarrow> rat \<Rightarrow> DeviceBucket" where
  "finish_bucket b denominator =
     b\<lparr>b_ctr := (if b_impressions b > 0 then (b_clicks b / b_impressions b) * 100 else 0),
       b_conversion_rate :=
         (if b_clicks b > 0 then (b_conversions b / b_clicks b) * 100 else 0),
       b_percentage_of_traffic := js_times (js_div (b_impressions b) denominator) 100\<rparr>"

definition two_points :: "rat \<Rightarrow> rat \<Rightarrow> ChartPoint list" where
  "two_points m d =
     [\<lparr>cp_label = ''Mobile'', cp_value = m, cp_color = ''#3B82F6''\<rparr>,
      \<lparr>cp_label = ''Desktop'', cp_value = d, cp_color = ''#10B981''\<rparr>]"

definition deviceMetrics :: "Campaign list option \<Rightarrow> DeviceMetrics" where
  "deviceMetrics data =
     (case data of
        None \<Rightarrow>
          \<lparr>mobile = zero_bucket, desktop = zero_bucket, deviceComparison = [],
           performanceByCampaign = [], roasComparison = [], conversionRateComparison = []\<rparr>
      | Some campaigns \<Rightarrow>
          (case device_loop campaigns of (mobileData0, desktopData0, rows) \<Rightarrow>
             (let mobileData =
                    finish_bucket mobileData0 (b_impressions mobileData0 + b_impressions desktopData0);
                  desktopData =
                    finish_bucket desktopData0 (b_impressions mobileData + b_impressions desktopData0)
              in \<lparr>mobile = mobileData, desktop = desktopData,
                  deviceComparison = two_points (b_revenue mobileData) (b_revenue desktopData),
                  performanceByCampaign = rows,
                  roasComparison =
                    two_points
                      (if b_spend mobileData > 0 then b_revenue mobileData / b_spend mobileData else 0)
                      (if b_spend desktopData > 0
                       then b_revenue desktopData / b_spend desktopData else 0),
                  conversionRateComparison =
                    two_points (b_conversion_rate mobileData) (b_conversion_rate desktopData)\<rparr>)))"

section \<open>The weekly aggregator (app/weekly-view/page.tsx)\<close>

text \<open>
  \<open>Date\<close> belongs to the runtime, not to the repository, so the aggregator takes its two
  uses as parameters: \<open>getTime s\<close> is \<open>new Date(s).getTime()\<close>, an integer number of
  milliseconds, or \<open>None\<close> for \<open>NaN\<close> when \<open>s\<close> does not parse; \<open>toLocaleDateString s\<close> is
  \<open>new Date(s).toLocaleDateString('en-US', { month: 'short', day: 'numeric' })\<close>.
\<close>

record WeeklyMetrics = Totals +
  revenueByWeek :: "ChartPoint list"
  spendByWeek :: "ChartPoint list"
  impressionsByWeek :: "ChartPoint list"
  clicksByWeek :: "ChartPoint list"
  weeklyData :: "WeeklyPerformance list option"

definition weekKey :: "WeeklyPerformance \<Rightarrow> string" where
  "weekKey week = wp_week_start week @ ''_'' @ wp_week_end week"

definition add_week :: "WeeklyPerformance \<Rightarrow> WeeklyPerformance \<Rightarrow> WeeklyPerformance" where
  "add_week w week =
     w\<lparr>wp_impressions := wp_impressions w + wp_impressions week,
       wp_clicks := wp_clicks w + wp_clicks week,
       wp_conversions := wp_conversions w + wp_conversions week,
       wp_spend := wp_spend w + wp_spend week,
       wp_revenue := wp_revenue w + wp_revenue week\<rparr>"

definition week_step ::
  "(string \<times> WeeklyPerformance) list \<Rightarrow> WeeklyPerformance \<Rightarrow> (string \<times> WeeklyPerformance) list"
where
  "week_step weeklyMap week =
     (case map_of weeklyMap (weekKey week) of
        None \<Rightarrow> AList.update (weekKey week) week weeklyMap
      | Some w \<Rightarrow> AList.update (weekKey week) (add_week w week) weeklyMap)"

definition build_weeklyMap :: "Campaign list \<Rightarrow> (string \<times> WeeklyPerformance) list" where
  "build_weeklyMap campaigns =
     foldl (\<lambda>weeklyMap campaign. foldl week_step weeklyMap (weekly_performance campaign))
       [] campaigns"

text \<open>
  The comparator \<open>(a, b) => new Date(a.week_start).getTime() - new Date(b.week_start).getTime()\<close>;
  the difference is \<open>NaN\<close> as soon as one side is.
\<close>

definition week_compare ::
  "(string \<Rightarrow> int option) \<Rightarrow> WeeklyPerformance \<Rightarrow> WeeklyPerformance \<Rightarrow> int option" where
  "week_compare getTime a b =
     (case (getTime (wp_week_start a), getTime (wp_week_start b)) of
        (Some x, Some y) \<Rightarrow> Some (x - y)
      | _ \<Rightarrow> None)"

text \<open>
  \<open>Array.prototype.sort\<close> with a comparator is a stable sort: \<open>a\<close> moves behind \<open>b\<close> only
  when the comparator is positive on \<open>(a, b)\<close>, and \<open>NaN\<close> counts as \<open>0\<close>. With a consistent
  comparator the result does not depend on the sorting algorithm; it is modelled by
  insertion from the right. With an inconsistent comparator (a date that does not parse)
  the language leaves the order to the implementation, and the model's order is one of them.
\<close>

fun sort_insert :: "('a \<Rightarrow> 'a \<Rightarrow> int option) \<Rightarrow> 'a \<Rightarrow> 'a list \<Rightarrow> 'a list" where
  "sort_insert cmp x [] = [x]"
| "sort_insert cmp x (y # ys) =
     (case cmp x y of
        Some v \<Rightarrow> (if v > 0 then y # sort_insert cmp x ys else x # y # ys)
      | None \<Rightarrow> x # y # ys)"

definition array_sort :: "('a \<Rightarrow> 'a \<Rightarrow> int option) \<Rightarrow> 'a list \<Rightarrow> 'a list" where
  "array_sort cmp xs = foldr (sort_insert cmp) xs []"

definition week_totals :: "WeeklyPerformance list \<Rightarrow> Totals" where
  "week_totals rows =
     foldl (\<lambda>acc week.
         \<lparr>totalRevenue = totalRevenue acc + wp_revenue week,
          totalSpend = totalSpend acc + wp_spend week,
          totalImpressions = totalImpressions acc + wp_impressions week,
          totalClicks = totalClicks acc + wp_clicks week,
          totalConversions = totalConversions acc + wp_conversions week\<rparr>)
       zero_totals rows"

definition week_point ::
  "(string \<Rightarrow> string) \<Rightarrow> (WeeklyPerformance \<Rightarrow> rat) \<Rightarrow> string \<Rightarrow> WeeklyPerformance \<Rightarrow> ChartPoint"
where
  "week_point toLocaleDateString field colour week =
     \<lparr>cp_label = ''Week '' @ toLocaleDateString (wp_week_start week),
      cp_value = field week, cp_color = colour\<rparr>"

definition weeklyMetrics ::
  "(string \<Rightarrow> int option) \<Rightarrow> (string \<Rightarrow> string) \<Rightarrow> Campaign list option \<Rightarrow> WeeklyMetrics" where
  "weeklyMetrics getTime toLocaleDateString data =
     (case data of
        None \<Rightarrow>
          \<lparr>totalRevenue = 0, totalSpend = 0, totalImpressions = 0, totalClicks = 0,
           totalConversions = 0, revenueByWeek = [], spendByWeek = [], impressionsByWeek = [],
           clicksByWeek = [], weeklyData = None\<rparr>
      | Some campaigns \<Rightarrow>
          (let rows = array_sort (week_compare getTime) (object_values (build_weeklyMap campaigns));
               totals = week_totals rows
           in \<lparr>totalRevenue = totalRevenue totals, totalSpend = totalSpend totals,
               totalImpressions = totalImpressions totals, totalClicks = totalClicks totals,
               totalConversions = totalConversions totals,
               revenueByWeek = map (week_point toLocaleDateString wp_revenue ''#10B981'') rows,
               spendByWeek = map (week_point toLocaleDateString wp_spend ''#3B82F6'') rows,
               impressionsByWeek =
                 map (week_point toLocaleDateString wp_impressions ''#F59E0B'') rows,
               clicksByWeek = map (week_point toLocaleDateString wp_clicks ''#EF4444'') rows,
               weeklyData = Some rows\<rparr>))"

section \<open>The demographic aggregator (app/demographic-view/page.tsx)\<close>

record AgeGroupData =
  ag_impressions :: rat
  ag_clicks :: rat
  ag_conversions :: rat
  ag_ctr :: rat
  ag_conversion_rate :: rat

record AgeGroupRow = AgeGroupData +
  ag_age_group :: string

record DemographicMetrics =
  maleClicks :: rat
  maleSpend :: rat
  maleRevenue :: rat
  femaleClicks :: rat
  femaleSpend :: rat
  femaleRevenue :: rat
  ageGroupSpend :: "ChartPoint list"
  ageGroupRevenue :: "ChartPoint list"
  maleAgeGroups :: "AgeGroupRow list"
  femaleAgeGroups :: "AgeGroupRow list"

text \<open>The variables that the two nested loops update.\<close>

record DemographicState =
  st_maleClicks :: rat
  st_maleSpend :: rat
  st_maleRevenue :: rat
  st_femaleClicks :: rat
  st_femaleSpend :: rat
  st_femaleRevenue :: rat
  ageGroupSpendMap :: "(string \<times> rat) list"
  ageGroupRevenueMap :: "(string \<times> rat) list"
  maleAgeGroupMap :: "(string \<times> AgeGroupData) list"
  femaleAgeGroupMap :: "(string \<times> AgeGroupData) list"

definition initial_state :: DemographicState where
  "initial_state =
     \<lparr>st_maleClicks = 0, st_maleSpend = 0, st_maleRevenue = 0,
      st_femaleClicks = 0, st_femaleSpend = 0, st_femaleRevenue = 0,
      ageGroupSpendMap = [], ageGroupRevenueMap = [],
      maleAgeGroupMap = [], femaleAgeGroupMap = []\<rparr>"

text \<open>\<open>const allocatedSpend = campaign.spend * audiencePercentage\<close>, and the same for revenue.\<close>

definition audiencePercentage :: "DemographicBreakdown \<Rightarrow> rat" where
  "audiencePercentage breakdown = db_percentage_of_audience breakdown / 100"

definition allocatedSpend :: "Campaign \<Rightarrow> DemographicBreakdown \<Rightarrow> rat" where
  "allocatedSpend campaign breakdown = c_spend campaign * audiencePercentage breakdown"

definition allocatedRevenue :: "Campaign \<Rightarrow> DemographicBreakdown \<Rightarrow> rat" where
  "allocatedRevenue campaign breakdown = c_revenue campaign * audiencePercentage breakdown"

text \<open>\<open>if (!m[age_group]) m[age_group] = 0\<close>: a missing key and a key holding \<open>0\<close> are both falsy.\<close>

definition init_zero :: "string \<Rightarrow> (string \<times> rat) list \<Rightarrow> (string \<times> rat) list" where
  "init_zero k m =
     (case map_of m k of
        None \<Rightarrow> AList.update k 0 m
      | Some v \<Rightarrow> (if v = 0 then AList.update k 0 m else m))"

text \<open>
  \<open>m[age_group] += x\<close>. The key has been initialised before, so the \<open>None\<close> branch is never
  taken by the aggregator.
\<close>

definition add_amount :: "string \<Rightarrow> rat \<Rightarrow> (string \<times> rat) list \<Rightarrow> (string \<times> rat) list" where
  "add_amount k x m =
     (case map_of m k of
        None \<Rightarrow> m
      | Some v \<Rightarrow> AList.update k (v + x) m)"

definition zero_age_group :: AgeGroupData where
  "zero_age_group =
     \<lparr>ag_impressions = 0, ag_clicks = 0, ag_conversions = 0, ag_ctr = 0,
      ag_conversion_rate = 0\<rparr>"

text \<open>The three \<open>+=\<close> on the fields of \<open>m[age_group]\<close>.\<close>

definition add_counts :: "AgeGroupData \<Rightarrow> Performance \<Rightarrow> AgeGroupData" where
  "add_counts d performance =
     d\<lparr>ag_impressions := ag_impressions d + pf_impressions performance,
       ag_clicks := ag_clicks d + pf_clicks performance,
       ag_conversions := ag_conversions d + pf_conversions performance\<rparr>"

text \<open>
  \<open>if (!m[age_group]) m[age_group] = {impressions: 0, ...}\<close> followed by the three \<open>+=\<close>. An
  object is truthy, so only a missing key is initialised.
\<close>

definition add_performance ::
  "string \<Rightarrow> Performance \<Rightarrow> (string \<times> AgeGroupData) list \<Rightarrow> (string \<times> AgeGroupData) list" where
  "add_performance k performance m =
     (case map_of m k of
        None \<Rightarrow> AList.update k (add_counts zero_age_group performance) m
      | Some d \<Rightarrow> AList.update k (add_counts d performance) m)"

text \<open>The body of the inner \<open>forEach\<close>.\<close>

definition demographic_step ::
  "Campaign \<Rightarrow> DemographicState \<Rightarrow> DemographicBreakdown \<Rightarrow> DemographicState" where
  "demographic_step campaign st breakdown =
     (let age_group = db_age_group breakdown;
          gender = db_gender breakdown;
          performance = db_performance breakdown;
          st1 = st\<lparr>ageGroupSpendMap := init_zero age_group (ageGroupSpendMap st),
                    ageGroupRevenueMap := init_zero age_group (ageGroupRevenueMap st)\<rparr>;
          st2 =
            (if toLowerCase gender = ''male'' then
               st1\<lparr>st_maleClicks := st_maleClicks st1 + pf_clicks performance,
                    st_maleSpend := st_maleSpend st1 + allocatedSpend campaign breakdown,
                    st_maleRevenue := st_maleRevenue st1 + allocatedRevenue campaign breakdown,
                    maleAgeGroupMap := add_performance age_group performance (maleAgeGroupMap st1)\<rparr>
             else if toLowerCase gender = ''female'' then
               st1\<lparr>st_femaleClicks := st_femaleClicks st1 + pf_clicks performance,
                    st_femaleSpend := st_femaleSpend st1 + allocatedSpend campaign breakdown,
                    st_femaleRevenue := st_femaleRevenue st1 + allocatedRevenue campaign breakdown,
                    femaleAgeGroupMap :=
                      add_performance age_group performance (femaleAgeGroupMap st1)\<rparr>
             else st1)
      in st2\<lparr>ageGroupSpendMap :=
               add_amount age_group (allocatedSpend campaign breakdown) (ageGroupSpendMap st2),
             ageGroupRevenueMap :=
               add_amount age_group (allocatedRevenue campaign breakdown) (ageGroupRevenueMap st2)\<rparr>)"

definition demographic_loop :: "Campaign list \<Rightarrow> DemographicState" where
  "demographic_loop campaigns =
     foldl (\<lambda>st campaign. foldl (demographic_step campaign) st (demographic_breakdown campaign))
       initial_state campaigns"

text \<open>
  The pass over \<open>Object.keys(m)\<close> sets \<open>ctr\<close> and \<open>conversion_rate\<close> of the object under every
  key, each object once and in place; it is \<open>set_rates\<close> applied to every value of the map.
\<close>

definition set_rates :: "AgeGroupData \<Rightarrow> AgeGroupData" where
  "set_rates d =
     d\<lparr>ag_ctr := (if ag_impressions d > 0 then (ag_clicks d / ag_impressions d) * 100 else 0),
       ag_conversion_rate :=
         (if ag_clicks d > 0 then (ag_conversions d / ag_clicks d) * 100 else 0)\<rparr>"

definition age_row :: "string \<times> AgeGroupData \<Rightarrow> AgeGroupRow" where
  "age_row e =
     \<lparr>ag_impressions = ag_impressions (snd e), ag_clicks = ag_clicks (snd e),
      ag_conversions = ag_conversions (snd e), ag_ctr = ag_ctr (snd e),
      ag_conversion_rate = ag_conversion_rate (snd e), ag_age_group = fst e\<rparr>"

definition amount_point :: "string \<Rightarrow> string \<times> rat \<Rightarrow> ChartPoint" where
  "amount_point colour e = \<lparr>cp_label = fst e, cp_value = snd e, cp_color = colour\<rparr>"

definition demographicMetrics :: "Campaign list option \<Rightarrow> DemographicMetrics" where
  "demographicMetrics data =
     (case data of
        None \<Rightarrow>
          \<lparr>maleClicks = 0, maleSpend = 0, maleRevenue = 0,
           femaleClicks = 0, femaleSpend = 0, femaleRevenue = 0,
           ageGroupSpend = [], ageGroupRevenue = [], maleAgeGroups = [], femaleAgeGroups = []\<rparr>
      | Some campaigns \<Rightarrow>
          (let st = demographic_loop campaigns;
               males = map (\<lambda>e. (fst e, set_rates (snd e))) (maleAgeGroupMap st);
               females = map (\<lambda>e. (fst e, set_rates (snd e))) (femaleAgeGroupMap st)
           in \<lparr>maleClicks = st_maleClicks st, maleSpend = st_maleSpend st,
               maleRevenue = st_maleRevenue st,
               femaleClicks = st_femaleClicks st, femaleSpend = st_femaleSpend st,
               femaleRevenue = st_femaleRevenue st,
               ageGroupSpend = map (amount_point ''#3B82F6'') (object_entries (ageGroupSpendMap st)),
               ageGroupRevenue =
                 map (amount_point ''#10B981'') (object_entries (ageGroupRevenueMap st)),
               maleAgeGroups = map age_row (object_entries males),
               femaleAgeGroups = map age_row (object_entries females)\<rparr>))"

section \<open>Notions used to state the properties\<close>

subsection \<open>Device view\<close>

text \<open>
  The device entries that carry one of the two labels the aggregator knows, and a campaign
  with every other device entry taken out.
\<close>

definition recognised_device :: "DevicePerformance \<Rightarrow> bool" where
  "recognised_device d = (dp_device d = ''Mobile'' \<or> dp_device d = ''Desktop'')"

definition without_other_devices :: "Campaign \<Rightarrow> Campaign" where
  "without_other_devices c =
     c\<lparr>device_performance := filter recognised_device (device_performance c)\<rparr>"

text \<open>All device entries of the dataset with a given label, in input order.\<close>

definition device_entries :: "string \<Rightarrow> Campaign list \<Rightarrow> DevicePerformance list" where
  "device_entries l cs = filter (\<lambda>d. dp_device d = l) (concat (map device_performance cs))"

subsection \<open>Grouping\<close>

text \<open>
  The grouping loops of the regional and weekly views have one shape: an entry whose key is
  new opens a group, an entry whose key is present is added to its group. \<open>group_step\<close> is
  that shape, and \<open>first_occurrences\<close> lists keys in the order of their first encounter.
\<close>

definition group_step ::
  "('x \<Rightarrow> 'k) \<Rightarrow> ('x \<Rightarrow> 'g) \<Rightarrow> ('g \<Rightarrow> 'x \<Rightarrow> 'g) \<Rightarrow> ('k \<times> 'g) list \<Rightarrow> 'x \<Rightarrow> ('k \<times> 'g) list" where
  "group_step key init add m x =
     (case map_of m (key x) of
        None \<Rightarrow> AList.update (key x) (init x) m
      | Some g \<Rightarrow> AList.update (key x) (add g x) m)"

definition first_occurrences :: "'k list \<Rightarrow> 'k list" where
  "first_occurrences ks = foldl (\<lambda>seen k. if k \<in> set seen then seen else seen @ [k]) [] ks"

text \<open>The entries of a list that carry a given key, in input order.\<close>

definition with_key :: "('x \<Rightarrow> 'k) \<Rightarrow> 'k \<Rightarrow> 'x list \<Rightarrow> 'x list" where
  "with_key key k xs = filter (\<lambda>x. key x = k) xs"

subsection \<open>Derived metrics (section 4.1 of the specification)\<close>

text \<open>
  These five follow the words of the specification, not the code; the aggregators write
  their formulas inline. \<open>derived_from_counters\<close> says that the derived fields of a
  regional record are these formulas applied to the record's own counters.
\<close>

definition spec_ctr :: "rat \<Rightarrow> rat \<Rightarrow> rat" where
  "spec_ctr impressions clicks = (if impressions > 0 then clicks / impressions * 100 else 0)"

definition spec_conversion_rate :: "rat \<Rightarrow> rat \<Rightarrow> rat" where
  "spec_conversion_rate clicks conversions =
     (if clicks > 0 then conversions / clicks * 100 else 0)"

definition spec_cpc :: "rat \<Rightarrow> rat \<Rightarrow> rat" where
  "spec_cpc spend clicks = (if clicks > 0 then spend / clicks else 0)"

definition spec_cpa :: "rat \<Rightarrow> rat \<Rightarrow> rat" where
  "spec_cpa spend conversions = (if conversions > 0 then spend / conversions else 0)"

definition spec_roas :: "rat \<Rightarrow> rat \<Rightarrow> rat" where
  "spec_roas spend revenue = (if spend > 0 then revenue / spend else 0)"

definition derived_from_counters :: "'a RegionalPerformance_scheme \<Rightarrow> bool" where
  "derived_from_counters g =
     (rp_ctr g = spec_ctr (rp_impressions g) (rp_clicks g)
      \<and> rp_conversion_rate g = spec_conversion_rate (rp_clicks g) (rp_conversions g)
      \<and> rp_cpc g = spec_cpc (rp_spend g) (rp_clicks g)
      \<and> rp_cpa g = spec_cpa (rp_spend g) (rp_conversions g)
      \<and> rp_roas g = spec_roas (rp_spend g) (rp_revenue g))"

subsection \<open>Base counters\<close>

text \<open>
  The five additive counters of a record, in the order impressions, clicks, conversions,
  spend, revenue, and their elementwise sum.
\<close>

type_synonym counters = "rat \<times> rat \<times> rat \<times> rat \<times> rat"






subsection \<open>Regional view\<close>

text \<open>All regional entries of the dataset, in the order in which the two loops visit them.\<close>

definition region_entries :: "Campaign list \<Rightarrow> RegionalPerformance list" where
  "region_entries cs = concat (map regional_performance cs)"

text \<open>A group record carries the stored fields of an entry unchanged.\<close>

definition copied_from :: "'a RegionalPerformance_scheme \<Rightarrow> RegionalPerformance \<Rightarrow> bool" where
  "copied_from g e =
     (rp_region g = rp_region e \<and> rp_country g = rp_country e
      \<and> rp_impressions g = rp_impressions e \<and> rp_clicks g = rp_clicks e
      \<and> rp_conversions g = rp_conversions e \<and> rp_spend g = rp_spend e
      \<and> rp_revenue g = rp_revenue e
      \<and> rp_ctr g = rp_ctr e \<and> rp_conversion_rate g = rp_conversion_rate e
      \<and> rp_cpc g = rp_cpc e \<and> rp_cpa g = rp_cpa e \<and> rp_roas g = rp_roas e)"

definition region_counters :: "'a RegionalPerformance_scheme \<Rightarrow> counters" where
  "region_counters g =
     (rp_impressions g, rp_clicks g, rp_conversions g, rp_spend g, rp_revenue g)"


text \<open>
  Position \<open>i\<close> holds the first maximum of the revenues: every row before it has a strictly
  smaller revenue, and no row has a larger one.
\<close>

definition first_maximum :: "RegionDatum list \<Rightarrow> nat \<Rightarrow> bool" where
  "first_maximum rows i =
     (i < length rows
      \<and> list_all (\<lambda>r. rp_revenue r < rp_revenue (rows ! i)) (take i rows)
      \<and> list_all (\<lambda>r. rp_revenue r \<le> rp_revenue (rows ! i)) rows)"

subsection \<open>Device buckets\<close>



subsection \<open>Weekly view\<close>

text \<open>
  Row \<open>a\<close> may stand before row \<open>b\<close> in chronological order: both week starts parse, and the
  time of \<open>a\<close> is not after the time of \<open>b\<close>.
\<close>

definition chronological ::
  "(string \<Rightarrow> int option) \<Rightarrow> WeeklyPerformance \<Rightarrow> WeeklyPerformance \<Rightarrow> bool" where
  "chronological getTime a b =
     (case (getTime (wp_week_start a), getTime (wp_week_start b)) of
        (Some x, Some y) \<Rightarrow> x \<le> y
      | _ \<Rightarrow> False)"

definition week_entries :: "Campaign list \<Rightarrow> WeeklyPerformance list" where
  "week_entries cs = concat (map weekly_performance cs)"



subsection \<open>Demographic view\<close>

text \<open>
  Every breakdown entry of the dataset next to its campaign, in the order in which the two
  loops visit them; those of one gender (compared in lower case), and those of one age
  group.
\<close>

definition breakdown_pairs :: "Campaign list \<Rightarrow> (Campaign \<times> DemographicBreakdown) list" where
  "breakdown_pairs cs = concat (map (\<lambda>c. map (Pair c) (demographic_breakdown c)) cs)"

definition gender_pairs :: "string \<Rightarrow> Campaign list \<Rightarrow> (Campaign \<times> DemographicBreakdown) list" where
  "gender_pairs g cs = filter (\<lambda>p. toLowerCase (db_gender (snd p)) = g) (breakdown_pairs cs)"

definition age_pairs :: "string \<Rightarrow> Campaign list \<Rightarrow> (Campaign \<times> DemographicBreakdown) list" where
  "age_pairs a cs = filter (\<lambda>p. db_age_group (snd p) = a) (breakdown_pairs cs)"

text \<open>The loop body on such a pair.\<close>

definition pair_step :: "DemographicState \<Rightarrow> Campaign \<times> DemographicBreakdown \<Rightarrow> DemographicState" where
  "pair_step st p = demographic_step (fst p) st (snd p)"

text \<open>The specification's allocation: the campaign's total times \<open>percentage_of_audience / 100\<close>.\<close>

definition spec_allocated :: "rat \<Rightarrow> rat \<Rightarrow> rat" where
  "spec_allocated campaign_total percentage = campaign_total * (percentage / 100)"

text \<open>The amount that a chart series reports under a label; zero when the label is missing.\<close>

definition amount_at :: "string \<Rightarrow> ChartPoint list \<Rightarrow> rat" where
  "amount_at k points =
     (case find (\<lambda>p. cp_label p = k) points of None \<Rightarrow> 0 | Some p \<Rightarrow> cp_value p)"


definition age_data_counts :: "AgeGroupData \<Rightarrow> rat \<times> rat \<times> rat" where
  "age_data_counts d = (ag_impressions d, ag_clicks d, ag_conversions d)"



subsection \<open>Results without data\<close>

text \<open>
  The results in which every total is zero and every collection is empty. The weekly
  result takes its \<open>weeklyData\<close> field as a parameter; \<open>nan_bucket\<close> is the zero bucket
  whose traffic share is \<open>NaN\<close>.
\<close>

definition no_regional :: RegionalMetrics where
  "no_regional =
     \<lparr>totalRevenue = 0, totalSpend = 0, totalImpressions = 0, totalClicks = 0,
      totalConversions = 0, regionalData = [], topRegion = None\<rparr>"

definition no_weekly :: "WeeklyPerformance list option \<Rightarrow> WeeklyMetrics" where
  "no_weekly rows =
     \<lparr>totalRevenue = 0, totalSpend = 0, totalImpressions = 0, totalClicks = 0,
      totalConversions = 0, revenueByWeek = [], spendByWeek = [], impressionsByWeek = [],
      clicksByWeek = [], weeklyData = rows\<rparr>"

definition no_demographic :: DemographicMetrics where
  "no_demographic =
     \<lparr>maleClicks = 0, maleSpend = 0, maleRevenue = 0,
      femaleClicks = 0, femaleSpend = 0, femaleRevenue = 0,
      ageGroupSpend = [], ageGroupRevenue = [], maleAgeGroups = [], femaleAgeGroups = []\<rparr>"

definition nan_bucket :: DeviceBucket where
  "nan_bucket = zero_bucket\<lparr>b_percentage_of_traffic := NaN\<rparr>"

section \<open>Sample datasets\<close>

definition device_entry :: "string \<Rightarrow> rat \<Rightarrow> rat \<Rightarrow> rat \<Rightarrow> rat \<Rightarrow> rat \<Rightarrow> DevicePerformance" where
  "device_entry l i c v s r =
     \<lparr>dp_device = l, dp_impressions = i, dp_clicks = c, dp_conversions = v, dp_spend = s,
      dp_revenue = r, dp_ctr = 0, dp_conversion_rate = 0\<rparr>"

definition empty_campaign :: Campaign where
  "empty_campaign =
     \<lparr>c_name = ''Summer'', c_spend = 1000, c_revenue = 2000, regional_performance = [],
      device_performance = [], weekly_performance = [], demographic_breakdown = []\<rparr>"

text \<open>A campaign seen on a phone, a tablet and a desktop computer.\<close>

definition tablet_campaign :: Campaign where
  "tablet_campaign =
     empty_campaign\<lparr>device_performance :=
       [device_entry ''Mobile'' 1000 50 5 100 300,
        device_entry ''Tablet'' 500 10 1 0 40,
        device_entry ''Desktop'' 3000 60 6 200 400]\<rparr>"

text \<open>
  Regional entries. The stored derived fields other than \<open>ctr\<close> agree with the counters;
  the stored \<open>ctr\<close> is given, as a feed that rounds or lags would deliver it.
\<close>

definition regional_entry ::
  "string \<Rightarrow> string \<Rightarrow> rat \<Rightarrow> rat \<Rightarrow> rat \<Rightarrow> rat \<Rightarrow> rat \<Rightarrow> rat \<Rightarrow> RegionalPerformance" where
  "regional_entry n co i c v s r stored_ctr =
     \<lparr>rp_region = n, rp_country = co, rp_impressions = i, rp_clicks = c, rp_conversions = v,
      rp_spend = s, rp_revenue = r, rp_ctr = stored_ctr,
      rp_conversion_rate = spec_conversion_rate c v, rp_cpc = spec_cpc s c,
      rp_cpa = spec_cpa s v, rp_roas = spec_roas s r\<rparr>"

definition regional_campaign :: "RegionalPerformance list \<Rightarrow> Campaign" where
  "regional_campaign rs = empty_campaign\<lparr>regional_performance := rs\<rparr>"

text \<open>One entry for Dubai whose stored \<open>ctr\<close> is 7 although 50 clicks on 1000 impressions are 5.\<close>

definition dubai_7 :: RegionalPerformance where
  "dubai_7 = regional_entry ''Dubai'' ''UAE'' 1000 50 5 100 300 7"

definition dubai_2 :: RegionalPerformance where
  "dubai_2 = regional_entry ''Dubai'' ''UAE'' 2000 100 10 200 600 5"

definition sharjah_9 :: RegionalPerformance where
  "sharjah_9 = regional_entry ''Sharjah'' ''UAE'' 400 20 2 50 500 9"

text \<open>Two groups with the same revenue, 500 each; and two groups with no revenue.\<close>

definition tie_campaigns :: "Campaign list" where
  "tie_campaigns =
     [regional_campaign [regional_entry ''Sharjah'' ''UAE'' 400 20 2 50 500 5],
      regional_campaign [regional_entry ''Dubai'' ''UAE'' 1000 50 5 100 200 5,
                         regional_entry ''Dubai'' ''UAE'' 1000 50 5 100 300 5]]"

definition no_revenue_campaigns :: "Campaign list" where
  "no_revenue_campaigns =
     [regional_campaign [regional_entry ''Dubai'' ''UAE'' 1000 50 5 100 0 5,
                         regional_entry ''Sharjah'' ''UAE'' 400 20 2 50 0 5]]"

text \<open>Dubai is seen by two campaigns, Sharjah by one.\<close>

definition mixed_campaigns :: "Campaign list" where
  "mixed_campaigns = [regional_campaign [dubai_7, sharjah_9], regional_campaign [dubai_2]]"

text \<open>
  Breakdown entries. The allocation example of the specification: a campaign with spend
  1000 and revenue 2000 (\<open>empty_campaign\<close> has these totals) and two segments of 60 and 40
  per cent.
\<close>

definition breakdown ::
  "string \<Rightarrow> string \<Rightarrow> rat \<Rightarrow> rat \<Rightarrow> rat \<Rightarrow> rat \<Rightarrow> DemographicBreakdown" where
  "breakdown a g pct i c v =
     \<lparr>db_age_group = a, db_gender = g, db_percentage_of_audience = pct,
      db_performance = \<lparr>pf_impressions = i, pf_clicks = c, pf_conversions = v\<rparr>\<rparr>"

definition allocation_campaign :: Campaign where
  "allocation_campaign =
     empty_campaign\<lparr>demographic_breakdown :=
       [breakdown ''18-24'' ''Male'' 60 1000 50 5,
        breakdown ''25-34'' ''Female'' 40 2000 80 8]\<rparr>"

text \<open>Three spellings of the gender field, one of them neither male nor female.\<close>

definition gender_campaign :: Campaign where
  "gender_campaign =
     empty_campaign\<lparr>demographic_breakdown :=
       [breakdown ''18-24'' ''MALE'' 50 1000 50 5,
        breakdown ''18-24'' ''Female'' 30 2000 80 8,
        breakdown ''25-34'' ''Other'' 20 500 7 1]\<rparr>"

text \<open>
  Weekly entries. Three campaigns bring the weeks of February, January and March 2024, in
  that order. \<open>example_getTime\<close> is
  \<open>new Date(s).getTime()\<close> on the three dates (a date-only string is midnight UTC) and
  \<open>NaN\<close> elsewhere; \<open>example_label\<close> stands for the locale's formatting.
\<close>

definition week_entry :: "string \<Rightarrow> string \<Rightarrow> rat \<Rightarrow> rat \<Rightarrow> rat \<Rightarrow> rat \<Rightarrow> rat \<Rightarrow> WeeklyPerformance" where
  "week_entry ws we i c v s r =
     \<lparr>wp_week_start = ws, wp_week_end = we, wp_impressions = i, wp_clicks = c,
      wp_conversions = v, wp_spend = s, wp_revenue = r\<rparr>"

definition weekly_campaign :: "WeeklyPerformance list \<Rightarrow> Campaign" where
  "weekly_campaign ws = empty_campaign\<lparr>weekly_performance := ws\<rparr>"

definition week_campaigns :: "Campaign list" where
  "week_campaigns =
     [weekly_campaign [week_entry ''2024-02-01'' ''2024-02-07'' 2000 100 10 200 600],
      weekly_campaign [week_entry ''2024-01-01'' ''2024-01-07'' 1000 50 5 100 300],
      weekly_campaign [week_entry ''2024-03-01'' ''2024-03-07'' 3000 150 15 300 900]]"

definition example_getTime :: "string \<Rightarrow> int option" where
  "example_getTime =
     map_of [(''2024-01-01'', 1704067200000),
             (''2024-02-01'', 1706745600000),
             (''2024-03-01'', 1709251200000)]"

definition example_label :: "string \<Rightarrow> string" where
  "example_label s = s"

section \<open>Properties of the device aggregator\<close>

lemma rows_inner:
  "snd (snd (foldl (device_step c) st ds)) = snd (snd st) @ map (campaign_row c) ds"
  by (induction ds arbitrary: st) (auto simp: device_step_def split: prod.splits)

lemma rows_outer:
  "snd (snd (foldl (\<lambda>st c. foldl (device_step c) st (device_performance c)) st cs))
     = snd (snd st) @ concat (map (\<lambda>c. map (campaign_row c) (device_performance c)) cs)"
  by (induction cs arbitrary: st) (auto simp: rows_inner)

lemma device_loop_rows:
  "snd (snd (device_loop cs)) = concat (map (\<lambda>c. map (campaign_row c) (device_performance c)) cs)"
  by (simp add: device_loop_def rows_outer)

lemma mobile_inner:
  "fst (foldl (device_step c) st ds)
     = foldl add_device (fst st) (filter (\<lambda>d. dp_device d = ''Mobile'') ds)"
  by (induction ds arbitrary: st) (auto simp: device_step_def split: prod.splits)

lemma desktop_inner:
  "fst (snd (foldl (device_step c) st ds))
     = foldl add_device (fst (snd st)) (filter (\<lambda>d. dp_device d = ''Desktop'') ds)"
  by (induction ds arbitrary: st) (auto simp: device_step_def split: prod.splits)

lemma mobile_outer:
  "fst (foldl (\<lambda>st c. foldl (device_step c) st (device_performance c)) st cs)
     = foldl add_device (fst st) (device_entries ''Mobile'' cs)"
  by (induction cs arbitrary: st) (auto simp: mobile_inner device_entries_def)

lemma desktop_outer:
  "fst (snd (foldl (\<lambda>st c. foldl (device_step c) st (device_performance c)) st cs))
     = foldl add_device (fst (snd st)) (device_entries ''Desktop'' cs)"
  by (induction cs arbitrary: st) (auto simp: desktop_inner device_entries_def)

text \<open>
  The loop in closed form: each bucket folds the entries with its own label, and the row
  list has one row for each entry.
\<close>

lemma device_loop_eq:
  "device_loop cs =
     (foldl add_device zero_bucket (device_entries ''Mobile'' cs),
      foldl add_device zero_bucket (device_entries ''Desktop'' cs),
      concat (map (\<lambda>c. map (campaign_row c) (device_performance c)) cs))"
  using mobile_outer [of "(zero_bucket, zero_bucket, [])" cs]
    desktop_outer [of "(zero_bucket, zero_bucket, [])" cs] device_loop_rows [of cs]
  by (cases "device_loop cs") (simp add: device_loop_def)

lemma performanceByCampaign_eq:
  "performanceByCampaign (deviceMetrics (Some cs))
     = concat (map (\<lambda>c. map (campaign_row c) (device_performance c)) cs)"
  by (simp add: deviceMetrics_def Let_def device_loop_eq)

lemma device_entries_without:
  "l = ''Mobile'' \<or> l = ''Desktop'' \<Longrightarrow>
   device_entries l (map without_other_devices cs) = device_entries l cs"
proof (induction cs)
  case Nil
  then show ?case by (simp add: device_entries_def)
next
  case (Cons c cs)
  have "filter (\<lambda>d. dp_device d = l) (filter recognised_device (device_performance c))
          = filter (\<lambda>d. dp_device d = l) (device_performance c)"
    using Cons.prems by (auto simp: recognised_device_def intro: filter_cong)
  with Cons show ?case
    by (simp add: device_entries_def without_other_devices_def)
qed

text \<open>
  Claim C6. Taking every device entry whose label is neither \<open>Mobile\<close> nor \<open>Desktop\<close> out of
  the dataset changes nothing in the two buckets: not the five counters, not
  \<open>campaignCount\<close>, not \<open>ctr\<close> and \<open>conversion_rate\<close>, and not \<open>percentage_of_traffic\<close>, whose
  denominator is the sum of the two buckets' impressions. Such an entry therefore
  contributes to neither bucket and not to the denominator.
\<close>

theorem other_devices_ignored:
  "mobile (deviceMetrics (Some (map without_other_devices campaigns)))
     = mobile (deviceMetrics (Some campaigns))
   \<and> desktop (deviceMetrics (Some (map without_other_devices campaigns)))
     = desktop (deviceMetrics (Some campaigns))"
  by (simp add: deviceMetrics_def Let_def device_loop_eq device_entries_without)

text \<open>
  The tablet entry of the sample campaign (500 impressions) is in neither bucket: the
  shares are 1000 and 3000 out of 4000.
\<close>

theorem other_devices_ignored_witness:
  "b_impressions (mobile (deviceMetrics (Some [tablet_campaign]))) = 1000
   \<and> b_campaignCount (mobile (deviceMetrics (Some [tablet_campaign]))) = 1
   \<and> b_percentage_of_traffic (mobile (deviceMetrics (Some [tablet_campaign]))) = Fin 25
   \<and> b_impressions (desktop (deviceMetrics (Some [tablet_campaign]))) = 3000
   \<and> b_campaignCount (desktop (deviceMetrics (Some [tablet_campaign]))) = 1
   \<and> b_percentage_of_traffic (desktop (deviceMetrics (Some [tablet_campaign]))) = Fin 75"
proof -
  have filtered: "map without_other_devices [tablet_campaign] =
      [empty_campaign\<lparr>device_performance :=
         [device_entry ''Mobile'' 1000 50 5 100 300,
          device_entry ''Desktop'' 3000 60 6 200 400]\<rparr>]"
    by (simp add: without_other_devices_def tablet_campaign_def recognised_device_def
        device_entry_def)
  have "mobile (deviceMetrics (Some [tablet_campaign]))
          = mobile (deviceMetrics (Some (map without_other_devices [tablet_campaign])))"
    and "desktop (deviceMetrics (Some [tablet_campaign]))
          = desktop (deviceMetrics (Some (map without_other_devices [tablet_campaign])))"
    using other_devices_ignored [of "[tablet_campaign]"] by simp_all
  then show ?thesis
    unfolding filtered
    by (simp add: deviceMetrics_def device_loop_def device_step_def add_device_def
        zero_bucket_def finish_bucket_def js_div_def device_entry_def empty_campaign_def)
qed

text \<open>
  Claim C10. The row list \<open>performanceByCampaign\<close> has one row for each device entry of each
  campaign, in input order (campaign by campaign, entry by entry), whatever the entry's
  label; a row carries its campaign's name and its entry's label, and its \<open>roas\<close> is
  revenue over spend when the spend is positive and \<open>0\<close> otherwise.
\<close>

theorem one_row_per_device_entry:
  "performanceByCampaign (deviceMetrics (Some campaigns))
     = concat (map (\<lambda>c. map (campaign_row c) (device_performance c)) campaigns)
   \<and> length (performanceByCampaign (deviceMetrics (Some campaigns)))
     = sum_list (map (\<lambda>c. length (device_performance c)) campaigns)
   \<and> row_device (campaign_row c d) = dp_device d
   \<and> row_campaignName (campaign_row c d) = c_name c
   \<and> row_roas (campaign_row c d) = (if dp_spend d > 0 then dp_revenue d / dp_spend d else 0)"
  by (simp add: performanceByCampaign_eq length_concat comp_def campaign_row_def)

theorem one_row_per_device_entry_witness:
  "map row_device (performanceByCampaign (deviceMetrics (Some [tablet_campaign])))
     = [''Mobile'', ''Tablet'', ''Desktop'']
   \<and> map row_roas (performanceByCampaign (deviceMetrics (Some [tablet_campaign]))) = [3, 0, 2]"
  using one_row_per_device_entry [of "[tablet_campaign]"]
  by (simp add: tablet_campaign_def campaign_row_def device_entry_def)

section \<open>Grouping and enumeration order\<close>

lemma group_step_lookup:
  "map_of (group_step key init add m x) k =
     (if k = key x then Some (case map_of m (key x) of None \<Rightarrow> init x | Some g \<Rightarrow> add g x)
      else map_of m k)"
  by (simp add: group_step_def update_conv' split: option.splits)

lemma group_step_keys:
  "map fst (group_step key init add m x) =
     (if key x \<in> set (map fst m) then map fst m else map fst m @ [key x])"
  by (simp add: group_step_def update_keys split: option.splits)

lemma group_fold_lookup:
  "map_of (foldl (group_step key init add) [] xs) k =
     (case with_key key k xs of
        [] \<Rightarrow> None
      | e # rest \<Rightarrow> Some (foldl add (init e) rest))"
proof (induction xs rule: rev_induct)
  case Nil
  then show ?case by (simp add: with_key_def)
next
  case (snoc x xs)
  show ?case
  proof (cases "key x = k")
    case True
    then show ?thesis
      using snoc by (simp add: group_step_lookup with_key_def split: list.splits)
  next
    case False
    then show ?thesis
      using snoc by (auto simp add: group_step_lookup with_key_def split: list.splits)
  qed
qed

lemma group_fold_keys:
  "map fst (foldl (group_step key init add) [] xs) = first_occurrences (map key xs)"
  by (induction xs rule: rev_induct) (simp_all add: first_occurrences_def group_step_keys)

lemma first_occurrences_distinct: "distinct (first_occurrences ks)"
  by (induction ks rule: rev_induct) (simp_all add: first_occurrences_def)

lemma first_occurrences_set: "set (first_occurrences ks) = set ks"
  by (induction ks rule: rev_induct) (auto simp add: first_occurrences_def)

lemma group_fold_distinct: "distinct (map fst (foldl (group_step key init add) [] xs))"
  by (simp add: group_fold_keys first_occurrences_distinct)

lemma nested_foldl:
  "foldl (\<lambda>st c. foldl f st (g c)) st cs = foldl f st (concat (map g cs))"
  by (induction cs arbitrary: st) simp_all

subsection \<open>Enumeration order of objects\<close>

lemma underscore_not_index: "\<not> is_array_index (a @ CHR ''_'' # b)"
  by (simp add: is_array_index_def is_digit_def)

lemma own_property_order_plain:
  "\<forall>p \<in> set obj. \<not> is_array_index (fst p) \<Longrightarrow> own_property_order obj = obj"
proof -
  assume a: "\<forall>p \<in> set obj. \<not> is_array_index (fst p)"
  then have "filter (\<lambda>p. is_array_index (fst p)) obj = []"
    by (simp add: filter_empty_conv)
  moreover from a have "filter (\<lambda>p. \<not> is_array_index (fst p)) obj = obj"
    by (simp add: filter_id_conv)
  ultimately show ?thesis by (simp add: own_property_order_def)
qed

lemma own_property_order_set: "set (own_property_order obj) = set obj"
  by (auto simp: own_property_order_def)

lemma own_property_order_distinct:
  "distinct (map fst obj) \<Longrightarrow> distinct (map fst (own_property_order obj))"
  by (auto simp: own_property_order_def distinct_map inj_on_def)

lemma own_property_order_lookup:
  "distinct (map fst obj) \<Longrightarrow> map_of (own_property_order obj) = map_of obj"
  using own_property_order_distinct [of obj] own_property_order_set [of obj]
  by (simp add: map_of_inject_set)

section \<open>Properties of the regional aggregator\<close>

lemma region_step_group: "region_step = group_step regionKey new_group add_to_group"
  by (intro ext) (simp add: region_step_def group_step_def)

lemma build_regionMap_eq:
  "build_regionMap cs = foldl (group_step regionKey new_group add_to_group) [] (region_entries cs)"
  by (simp add: build_regionMap_def nested_foldl region_entries_def region_step_group)

lemma regionMap_keys_plain: "\<forall>p \<in> set (build_regionMap cs). \<not> is_array_index (fst p)"
proof
  fix p assume "p \<in> set (build_regionMap cs)"
  then have "fst p \<in> set (map fst (build_regionMap cs))" by simp
  then have "fst p \<in> regionKey ` set (region_entries cs)"
    by (simp add: build_regionMap_eq group_fold_keys first_occurrences_set)
  then show "\<not> is_array_index (fst p)"
    by (auto simp: regionKey_def underscore_not_index)
qed

lemma regionMap_values: "object_values (build_regionMap cs) = map snd (build_regionMap cs)"
  by (simp add: object_values_def own_property_order_plain regionMap_keys_plain)


lemma regionMap_distinct: "distinct (map fst (build_regionMap cs))"
  by (simp add: build_regionMap_eq group_fold_distinct)

subsection \<open>What a group holds\<close>

lemma add_to_group_key: "regionKey (add_to_group g e) = regionKey g"
  by (simp add: add_to_group_def regionKey_def Let_def)

lemma fold_group_key: "regionKey (foldl add_to_group g es) = regionKey g"
  by (induction es arbitrary: g) (simp_all add: add_to_group_key)

lemma new_group_key: "regionKey (new_group e) = regionKey e"
  by (simp add: new_group_def regionKey_def)


lemma add_to_group_count: "campaignCount (add_to_group g e) = campaignCount g + 1"
  by (simp add: add_to_group_def Let_def)

lemma add_to_group_derived: "derived_from_counters (add_to_group g e)"
  by (simp add: add_to_group_def Let_def derived_from_counters_def spec_ctr_def
      spec_conversion_rate_def spec_cpc_def spec_cpa_def spec_roas_def)

lemma fold_group_count: "campaignCount (foldl add_to_group g es) = campaignCount g + length es"
  by (induction es arbitrary: g) (simp_all add: add_to_group_count)

lemma fold_group_derived: "es \<noteq> [] \<Longrightarrow> derived_from_counters (foldl add_to_group g es)"
  by (cases es rule: rev_cases) (simp_all add: add_to_group_derived)


lemma new_group_copied: "copied_from (new_group e) e"
  by (simp add: copied_from_def new_group_def)


lemma copied_derived:
  "copied_from g e \<Longrightarrow> derived_from_counters g = derived_from_counters e"
  by (simp add: copied_from_def derived_from_counters_def)

lemma to_datum_copied: "copied_from (to_datum key g) e = copied_from g e"
  by (simp add: copied_from_def to_datum_def)

lemma to_datum_facts:
  "regionKey (to_datum key g) = regionKey g"
  "campaignCount (to_datum key g) = campaignCount g"
  "derived_from_counters (to_datum key g) = derived_from_counters g"
  "region_counters (to_datum key g) = region_counters g"
  "rp_revenue (to_datum key g) = rp_revenue g"
  by (simp_all add: to_datum_def regionKey_def derived_from_counters_def region_counters_def)

lemma regionalData_eq:
  "regionalData (regionalMetrics key (Some cs))
     = map (\<lambda>p. to_datum key (snd p)) (build_regionMap cs)"
  by (simp add: regionalMetrics_def Let_def regionMap_values)

text \<open>Every record of the result is the fold of the entries that carry its key.\<close>

lemma regionalData_member:
  assumes "g \<in> set (regionalData (regionalMetrics key (Some cs)))"
  shows "\<exists>e rest. with_key regionKey (regionKey g) (region_entries cs) = e # rest
           \<and> g = to_datum key (foldl add_to_group (new_group e) rest)"
proof -
  from assms obtain k g' where in_map: "(k, g') \<in> set (build_regionMap cs)"
    and g: "g = to_datum key g'"
    by (auto simp: regionalData_eq)
  from in_map have "map_of (build_regionMap cs) k = Some g'"
    using regionMap_distinct by simp
  then obtain e rest where w: "with_key regionKey k (region_entries cs) = e # rest"
    and g': "g' = foldl add_to_group (new_group e) rest"
    by (auto simp: build_regionMap_eq group_fold_lookup split: list.splits)
  from w have "e \<in> set (with_key regionKey k (region_entries cs))" by simp
  then have "regionKey e = k" by (simp add: with_key_def)
  then have "regionKey g = k"
    by (simp add: g g' to_datum_facts fold_group_key new_group_key)
  with w g g' show ?thesis by blast
qed

text \<open>
  Claim C1, as the code has it. For every record of \<open>regionalData\<close>: its \<open>campaignCount\<close> is
  the number of regional entries that carry its key, at least one. When two or more
  entries contributed, the five derived metrics are the formulas of section 4.1 on the
  record's summed counters. When exactly one entry contributed, the record is a copy of
  that entry, stored derived fields included: they are not recalculated, and they are the
  formulas on the record's counters exactly when the entry's stored fields are. So when
  the stored derived fields of every regional entry agree with the entry's counters, the
  derived metrics of every record are the formulas on its counters.
\<close>

theorem regional_derived_metrics:
  "\<forall>g \<in> set (regionalData (regionalMetrics key (Some campaigns))).
     campaignCount g = length (with_key regionKey (regionKey g) (region_entries campaigns))
     \<and> campaignCount g \<ge> 1
     \<and> (campaignCount g \<ge> 2 \<longrightarrow> derived_from_counters g)
     \<and> (campaignCount g = 1 \<longrightarrow>
          copied_from g (hd (with_key regionKey (regionKey g) (region_entries campaigns)))
          \<and> derived_from_counters g
              = derived_from_counters
                  (hd (with_key regionKey (regionKey g) (region_entries campaigns))))
     \<and> ((\<forall>e \<in> set (region_entries campaigns). derived_from_counters e)
          \<longrightarrow> derived_from_counters g)"
proof
  fix g assume "g \<in> set (regionalData (regionalMetrics key (Some campaigns)))"
  then obtain e rest
    where w: "with_key regionKey (regionKey g) (region_entries campaigns) = e # rest"
      and g: "g = to_datum key (foldl add_to_group (new_group e) rest)"
    using regionalData_member by blast
  from w have "e \<in> set (with_key regionKey (regionKey g) (region_entries campaigns))"
    by simp
  then have e: "e \<in> set (region_entries campaigns)"
    by (simp add: with_key_def)
  have count: "campaignCount g = 1 + length rest"
    by (simp add: g to_datum_facts fold_group_count new_group_def)
  have many: "derived_from_counters g" if "rest \<noteq> []"
    using that by (simp add: g to_datum_facts fold_group_derived)
  have one: "copied_from g e" if "rest = []"
    using that by (simp add: g to_datum_copied new_group_copied)
  have same: "derived_from_counters g = derived_from_counters e" if "rest = []"
    using one [OF that] by (rule copied_derived)
  have consistent: "derived_from_counters g"
    if "\<forall>e \<in> set (region_entries campaigns). derived_from_counters e"
  proof (cases "rest = []")
    case True
    with that e same show ?thesis by simp
  next
    case False
    then show ?thesis by (rule many)
  qed
  have "campaignCount g \<ge> 2 \<longrightarrow> derived_from_counters g"
  proof
    assume "campaignCount g \<ge> 2"
    with count have "rest \<noteq> []" by auto
    then show "derived_from_counters g" by (rule many)
  qed
  moreover have "campaignCount g = 1 \<longrightarrow>
          copied_from g (hd (with_key regionKey (regionKey g) (region_entries campaigns)))
          \<and> derived_from_counters g
              = derived_from_counters
                  (hd (with_key regionKey (regionKey g) (region_entries campaigns)))"
  proof
    assume "campaignCount g = 1"
    with count have "rest = []" by simp
    with one same w
    show "copied_from g (hd (with_key regionKey (regionKey g) (region_entries campaigns)))
          \<and> derived_from_counters g
              = derived_from_counters
                  (hd (with_key regionKey (regionKey g) (region_entries campaigns)))"
      by simp
  qed
  moreover have
    "campaignCount g = length (with_key regionKey (regionKey g) (region_entries campaigns))"
    "campaignCount g \<ge> 1"
    using count w by simp_all
  ultimately
  show "campaignCount g = length (with_key regionKey (regionKey g) (region_entries campaigns))
     \<and> campaignCount g \<ge> 1
     \<and> (campaignCount g \<ge> 2 \<longrightarrow> derived_from_counters g)
     \<and> (campaignCount g = 1 \<longrightarrow>
          copied_from g (hd (with_key regionKey (regionKey g) (region_entries campaigns)))
          \<and> derived_from_counters g
              = derived_from_counters
                  (hd (with_key regionKey (regionKey g) (region_entries campaigns))))
     \<and> ((\<forall>e \<in> set (region_entries campaigns). derived_from_counters e)
          \<longrightarrow> derived_from_counters g)"
    using consistent by blast
qed

text \<open>
  The claim as written fails on a group that one entry contributed to: the entry's stored
  \<open>ctr\<close> of 7 is reported, while 50 clicks on 1000 impressions give 5.
\<close>

theorem single_entry_group_keeps_stored_ctr:
  "length (regionalData (regionalMetrics Revenue (Some [regional_campaign [dubai_7]]))) = 1
   \<and> campaignCount (hd (regionalData (regionalMetrics Revenue (Some [regional_campaign [dubai_7]])))) = 1
   \<and> rp_impressions (hd (regionalData (regionalMetrics Revenue (Some [regional_campaign [dubai_7]])))) = 1000
   \<and> rp_clicks (hd (regionalData (regionalMetrics Revenue (Some [regional_campaign [dubai_7]])))) = 50
   \<and> rp_ctr (hd (regionalData (regionalMetrics Revenue (Some [regional_campaign [dubai_7]])))) = 7
   \<and> spec_ctr 1000 50 = 5
   \<and> \<not> derived_from_counters
         (hd (regionalData (regionalMetrics Revenue (Some [regional_campaign [dubai_7]]))))"
  by code_simp

text \<open>
  On the sample with two entries for Dubai and one for Sharjah: Dubai is recalculated
  (\<open>ctr\<close> 5, although the first entry stored 7), Sharjah keeps its stored \<open>ctr\<close> of 9. On
  the sample whose entries all store consistent fields, the record of Sharjah, with one
  entry, has the derived metrics of the formulas.
\<close>

theorem regional_derived_metrics_witness:
  "map campaignCount (regionalData (regionalMetrics Revenue (Some mixed_campaigns))) = [2, 1]
   \<and> derived_from_counters (regionalData (regionalMetrics Revenue (Some mixed_campaigns)) ! 0)
   \<and> rp_ctr (regionalData (regionalMetrics Revenue (Some mixed_campaigns)) ! 0) = 5
   \<and> copied_from (regionalData (regionalMetrics Revenue (Some mixed_campaigns)) ! 1) sharjah_9
   \<and> rp_ctr (regionalData (regionalMetrics Revenue (Some mixed_campaigns)) ! 1) = 9
   \<and> campaignCount (regionalData (regionalMetrics Revenue (Some tie_campaigns)) ! 0) = 1
   \<and> derived_from_counters (regionalData (regionalMetrics Revenue (Some tie_campaigns)) ! 0)"
proof -
  let ?rows = "regionalData (regionalMetrics Revenue (Some mixed_campaigns))"
  let ?ties = "regionalData (regionalMetrics Revenue (Some tie_campaigns))"
  have counts: "map campaignCount ?rows = [2, 1]"
    by code_simp
  have c0: "campaignCount (?rows ! 0) = 2" and c1: "campaignCount (?rows ! 1) = 1"
    and t0: "campaignCount (?ties ! 0) = 1"
    by code_simp+
  have r0: "rp_ctr (?rows ! 0) = 5" and r1: "rp_ctr (?rows ! 1) = 9"
    by code_simp+
  have mem: "?rows ! 0 \<in> set ?rows" "?rows ! 1 \<in> set ?rows" "?ties ! 0 \<in> set ?ties"
    by code_simp+
  have entries:
    "hd (with_key regionKey (regionKey (?rows ! 1)) (region_entries mixed_campaigns)) = sharjah_9"
    by code_simp
  have consistent: "\<forall>e \<in> set (region_entries tie_campaigns). derived_from_counters e"
    by code_simp
  note dubai = regional_derived_metrics [of Revenue mixed_campaigns, THEN bspec, OF mem(1)]
  note sharjah = regional_derived_metrics [of Revenue mixed_campaigns, THEN bspec, OF mem(2)]
  note tie = regional_derived_metrics [of Revenue tie_campaigns, THEN bspec, OF mem(3)]
  from dubai c0 have d0: "derived_from_counters (?rows ! 0)" by simp
  from sharjah c1 have "copied_from (?rows ! 1)
      (hd (with_key regionKey (regionKey (?rows ! 1)) (region_entries mixed_campaigns)))"
    by blast
  then have cp: "copied_from (?rows ! 1) sharjah_9" by (simp only: entries)
  from tie consistent have d1: "derived_from_counters (?ties ! 0)" by blast
  from counts d0 r0 cp r1 t0 d1 show ?thesis by (intro conjI)
qed

subsection \<open>The top region\<close>

lemma find_topRegion_snoc: "find_topRegion (rows @ [x]) = top_step (find_topRegion rows) x"
  by (simp add: find_topRegion_def)

lemma top_positive: "find_topRegion rows = Some t \<Longrightarrow> rp_revenue t > 0"
proof (induction rows arbitrary: t rule: rev_induct)
  case Nil
  then show ?case by (simp add: find_topRegion_def)
next
  case (snoc x rows)
  show ?case
  proof (cases "find_topRegion rows")
    case None
    with snoc.prems show ?thesis
      by (simp add: find_topRegion_snoc top_step_def split: if_splits)
  next
    case (Some t')
    with snoc.IH have "rp_revenue t' > 0" by simp
    with Some snoc.prems show ?thesis
      by (auto simp add: find_topRegion_snoc top_step_def split: if_splits)
  qed
qed

lemma top_none: "(find_topRegion rows = None) = (\<forall>r \<in> set rows. rp_revenue r \<le> 0)"
proof (induction rows rule: rev_induct)
  case Nil
  then show ?case by (simp add: find_topRegion_def)
next
  case (snoc x rows)
  show ?case
  proof (cases "find_topRegion rows")
    case None
    with snoc show ?thesis
      by (auto simp add: find_topRegion_snoc top_step_def)
  next
    case (Some t')
    with snoc show ?thesis
      by (auto simp add: find_topRegion_snoc top_step_def)
  qed
qed

lemma top_first_maximum:
  "find_topRegion rows = Some t \<Longrightarrow> \<exists>i. first_maximum rows i \<and> rows ! i = t"
proof (induction rows arbitrary: t rule: rev_induct)
  case Nil
  then show ?case by (simp add: find_topRegion_def)
next
  case (snoc x rows)
  show ?case
  proof (cases "rp_revenue x > revenue_or_zero (find_topRegion rows)")
    case True
    then have t: "t = x"
      using snoc.prems by (simp add: find_topRegion_snoc top_step_def)
    have below: "\<forall>r \<in> set rows. rp_revenue r < rp_revenue x"
    proof (cases "find_topRegion rows")
      case None
      then have "\<forall>r \<in> set rows. rp_revenue r \<le> 0" by (simp add: top_none)
      moreover from None True have "rp_revenue x > 0" by simp
      ultimately show ?thesis by fastforce
    next
      case (Some t')
      then obtain i where "first_maximum rows i" "rows ! i = t'"
        using snoc.IH by blast
      then have "\<forall>r \<in> set rows. rp_revenue r \<le> rp_revenue t'"
        by (simp add: first_maximum_def list_all_iff)
      moreover from Some True have "rp_revenue t' < rp_revenue x"
        by (simp split: if_splits)
      ultimately show ?thesis by fastforce
    qed
    then have "first_maximum (rows @ [x]) (length rows)"
      by (auto simp add: first_maximum_def list_all_iff less_imp_le)
    with t show ?thesis by (intro exI [of _ "length rows"]) simp
  next
    case False
    then have top: "find_topRegion rows = Some t"
      using snoc.prems by (simp add: find_topRegion_snoc top_step_def)
    then obtain i where i: "first_maximum rows i" "rows ! i = t"
      using snoc.IH by blast
    from top have "rp_revenue t > 0" by (rule top_positive)
    with False top have "rp_revenue x \<le> rp_revenue t" by simp
    with i have "first_maximum (rows @ [x]) i"
      by (simp add: first_maximum_def nth_append)
    moreover from i have "(rows @ [x]) ! i = t"
      by (simp add: first_maximum_def nth_append)
    ultimately show ?thesis by blast
  qed
qed

lemma topRegion_eq:
  "topRegion (regionalMetrics key (Some cs))
     = find_topRegion (regionalData (regionalMetrics key (Some cs)))"
  by (simp add: regionalMetrics_def Let_def)

lemma regionMap_entry_key: "p \<in> set (build_regionMap cs) \<Longrightarrow> regionKey (snd p) = fst p"
proof -
  assume "p \<in> set (build_regionMap cs)"
  then have "map_of (build_regionMap cs) (fst p) = Some (snd p)"
    using regionMap_distinct by simp
  then obtain e rest where w: "with_key regionKey (fst p) (region_entries cs) = e # rest"
    and g': "snd p = foldl add_to_group (new_group e) rest"
    by (auto simp: build_regionMap_eq group_fold_lookup split: list.splits)
  from w have "e \<in> set (with_key regionKey (fst p) (region_entries cs))" by simp
  then have "regionKey e = fst p" by (simp add: with_key_def)
  then show ?thesis by (simp add: g' fold_group_key new_group_key)
qed

lemma regionalData_keys:
  "map regionKey (regionalData (regionalMetrics key (Some cs)))
     = first_occurrences (map regionKey (region_entries cs))"
proof -
  have "map regionKey (regionalData (regionalMetrics key (Some cs)))
          = map fst (build_regionMap cs)"
    by (simp add: regionalData_eq to_datum_facts regionMap_entry_key)
  then show ?thesis by (simp add: build_regionMap_eq group_fold_keys)
qed

text \<open>
  Claim C5. A reported top region is the first maximum of the revenues in the order of
  \<open>regionalData\<close>: no group has a larger revenue, and every group before it has a strictly
  smaller one, so that of several groups with the highest revenue the one that stands
  first is reported. A top region is reported as soon as some group has a revenue above
  zero. And when no key is inherited from \<open>Object.prototype\<close>, the records of
  \<open>regionalData\<close> stand in the order in which their keys were first encountered.
\<close>

theorem top_region_first_maximum:
  "((\<forall>e \<in> set (region_entries campaigns). \<not> inherited_key (regionKey e)) \<longrightarrow>
      map regionKey (regionalData (regionalMetrics key (Some campaigns)))
        = first_occurrences (map regionKey (region_entries campaigns)))
   \<and> (topRegion (regionalMetrics key (Some campaigns)) = Some t \<longrightarrow>
        (\<exists>i. first_maximum (regionalData (regionalMetrics key (Some campaigns))) i
            \<and> regionalData (regionalMetrics key (Some campaigns)) ! i = t))
   \<and> ((\<exists>g \<in> set (regionalData (regionalMetrics key (Some campaigns))). rp_revenue g > 0) \<longrightarrow>
        topRegion (regionalMetrics key (Some campaigns)) \<noteq> None)"
  by (auto simp add: regionalData_keys topRegion_eq top_first_maximum top_none not_le)

text \<open>
  Sharjah (one entry, revenue 500) is encountered before Dubai (two entries, revenue 200
  and 300), and neither key is inherited: both groups have revenue 500, and Sharjah is
  reported.
\<close>

theorem top_region_first_maximum_witness:
  "map regionKey (regionalData (regionalMetrics Revenue (Some tie_campaigns)))
     = [''Sharjah_UAE'', ''Dubai_UAE'']
   \<and> map rp_revenue (regionalData (regionalMetrics Revenue (Some tie_campaigns))) = [500, 500]
   \<and> map_option regionKey (topRegion (regionalMetrics Revenue (Some tie_campaigns)))
       = Some ''Sharjah_UAE''
   \<and> first_maximum (regionalData (regionalMetrics Revenue (Some tie_campaigns))) 0
   \<and> \<not> first_maximum (regionalData (regionalMetrics Revenue (Some tie_campaigns))) 1"
proof -
  let ?res = "regionalMetrics Revenue (Some tie_campaigns)"
  have plain: "\<forall>e \<in> set (region_entries tie_campaigns). \<not> inherited_key (regionKey e)"
    by code_simp
  have first: "first_occurrences (map regionKey (region_entries tie_campaigns))
      = [''Sharjah_UAE'', ''Dubai_UAE'']"
    by code_simp
  from plain top_region_first_maximum [of tie_campaigns Revenue]
  have "map regionKey (regionalData ?res)
      = first_occurrences (map regionKey (region_entries tie_campaigns))"
    by blast
  then have keys: "map regionKey (regionalData ?res) = [''Sharjah_UAE'', ''Dubai_UAE'']"
    by (simp only: first)
  have revs: "map rp_revenue (regionalData ?res) = [500, 500]"
    by code_simp
  obtain t where t: "topRegion ?res = Some t"
    by (cases "topRegion ?res") (simp_all, code_simp)
  with top_region_first_maximum [of tie_campaigns Revenue t]
  obtain i where i: "first_maximum (regionalData ?res) i" "regionalData ?res ! i = t"
    by blast
  have not1: "\<not> first_maximum (regionalData ?res) 1"
    by code_simp
  have len: "length (regionalData ?res) = 2" by code_simp
  from i(1) len have "i < 2" by (simp add: first_maximum_def)
  with i(1) not1 have i0: "i = 0" by (cases i) auto
  have k0: "regionKey (regionalData ?res ! 0) = ''Sharjah_UAE''" by code_simp
  from i i0 k0 t have top: "map_option regionKey (topRegion ?res) = Some ''Sharjah_UAE''"
    by simp
  from i(1) i0 have f0: "first_maximum (regionalData ?res) 0" by simp
  from keys revs top f0 not1 show ?thesis by (intro conjI)
qed

text \<open>
  Claim C9. No top region is reported exactly when no group has a revenue above zero; this
  also holds for the absent dataset, which has no group at all.
\<close>

theorem no_top_region_iff:
  "(topRegion (regionalMetrics key data) = None)
     = (\<not> (\<exists>g \<in> set (regionalData (regionalMetrics key data)). rp_revenue g > 0))"
proof (cases data)
  case None
  then show ?thesis by (simp add: regionalMetrics_def)
next
  case (Some cs)
  then show ?thesis by (auto simp add: topRegion_eq top_none not_less)
qed


text \<open>
  Two groups without revenue: records exist, no top region is reported. On the sample with
  revenue, one is.
\<close>

theorem no_top_region_iff_witness:
  "length (regionalData (regionalMetrics Revenue (Some no_revenue_campaigns))) = 2
   \<and> map rp_revenue (regionalData (regionalMetrics Revenue (Some no_revenue_campaigns))) = [0, 0]
   \<and> topRegion (regionalMetrics Revenue (Some no_revenue_campaigns)) = None
   \<and> topRegion (regionalMetrics Revenue (Some mixed_campaigns)) \<noteq> None"
proof -
  have len: "length (regionalData (regionalMetrics Revenue (Some no_revenue_campaigns))) = 2"
    and revs: "map rp_revenue (regionalData (regionalMetrics Revenue (Some no_revenue_campaigns)))
      = [0, 0]"
    by code_simp+
  have "\<not> (\<exists>g \<in> set (regionalData (regionalMetrics Revenue (Some no_revenue_campaigns))).
          rp_revenue g > 0)"
    by code_simp
  then have none: "topRegion (regionalMetrics Revenue (Some no_revenue_campaigns)) = None"
    using no_top_region_iff [of Revenue "Some no_revenue_campaigns"] by simp
  have "\<exists>g \<in> set (regionalData (regionalMetrics Revenue (Some mixed_campaigns))).
          rp_revenue g > 0"
    by code_simp
  then have some: "topRegion (regionalMetrics Revenue (Some mixed_campaigns)) \<noteq> None"
    using no_top_region_iff [of Revenue "Some mixed_campaigns"] by simp
  from len revs none some show ?thesis by (intro conjI)
qed

section \<open>Properties of the demographic aggregator\<close>

lemma inner_pairs:
  "foldl (demographic_step c) st bs = foldl pair_step st (map (Pair c) bs)"
  by (induction bs arbitrary: st) (simp_all add: pair_step_def)

lemma outer_pairs:
  "foldl (\<lambda>st c. foldl (demographic_step c) st (demographic_breakdown c)) st cs
     = foldl pair_step st (breakdown_pairs cs)"
  by (induction cs arbitrary: st) (simp_all add: breakdown_pairs_def inner_pairs)

lemma demographic_loop_pairs:
  "demographic_loop cs = foldl pair_step initial_state (breakdown_pairs cs)"
  by (simp add: demographic_loop_def outer_pairs)


subsection \<open>One step\<close>

lemma step_male:
  "st_maleClicks (pair_step st p)
     = st_maleClicks st
       + (if toLowerCase (db_gender (snd p)) = ''male'' then pf_clicks (db_performance (snd p)) else 0)"
  "st_maleSpend (pair_step st p)
     = st_maleSpend st
       + (if toLowerCase (db_gender (snd p)) = ''male'' then allocatedSpend (fst p) (snd p) else 0)"
  "st_maleRevenue (pair_step st p)
     = st_maleRevenue st
       + (if toLowerCase (db_gender (snd p)) = ''male'' then allocatedRevenue (fst p) (snd p) else 0)"
  by (simp_all add: pair_step_def demographic_step_def Let_def)

lemma step_female:
  "st_femaleClicks (pair_step st p)
     = st_femaleClicks st
       + (if toLowerCase (db_gender (snd p)) = ''female'' then pf_clicks (db_performance (snd p)) else 0)"
  "st_femaleSpend (pair_step st p)
     = st_femaleSpend st
       + (if toLowerCase (db_gender (snd p)) = ''female'' then allocatedSpend (fst p) (snd p) else 0)"
  "st_femaleRevenue (pair_step st p)
     = st_femaleRevenue st
       + (if toLowerCase (db_gender (snd p)) = ''female'' then allocatedRevenue (fst p) (snd p) else 0)"
  by (auto simp add: pair_step_def demographic_step_def Let_def)

lemma step_amounts:
  "ageGroupSpendMap (pair_step st p)
     = add_amount (db_age_group (snd p)) (allocatedSpend (fst p) (snd p))
         (init_zero (db_age_group (snd p)) (ageGroupSpendMap st))"
  "ageGroupRevenueMap (pair_step st p)
     = add_amount (db_age_group (snd p)) (allocatedRevenue (fst p) (snd p))
         (init_zero (db_age_group (snd p)) (ageGroupRevenueMap st))"
  by (simp_all add: pair_step_def demographic_step_def Let_def)


subsection \<open>Gender totals\<close>

lemma fold_male:
  "st_maleClicks (foldl pair_step st ps)
     = st_maleClicks st
       + sum_list (map (\<lambda>p. pf_clicks (db_performance (snd p)))
           (filter (\<lambda>p. toLowerCase (db_gender (snd p)) = ''male'') ps))"
  "st_maleSpend (foldl pair_step st ps)
     = st_maleSpend st
       + sum_list (map (\<lambda>p. allocatedSpend (fst p) (snd p))
           (filter (\<lambda>p. toLowerCase (db_gender (snd p)) = ''male'') ps))"
  "st_maleRevenue (foldl pair_step st ps)
     = st_maleRevenue st
       + sum_list (map (\<lambda>p. allocatedRevenue (fst p) (snd p))
           (filter (\<lambda>p. toLowerCase (db_gender (snd p)) = ''male'') ps))"
  by (induction ps arbitrary: st) (simp_all add: step_male)

lemma fold_female:
  "st_femaleClicks (foldl pair_step st ps)
     = st_femaleClicks st
       + sum_list (map (\<lambda>p. pf_clicks (db_performance (snd p)))
           (filter (\<lambda>p. toLowerCase (db_gender (snd p)) = ''female'') ps))"
  "st_femaleSpend (foldl pair_step st ps)
     = st_femaleSpend st
       + sum_list (map (\<lambda>p. allocatedSpend (fst p) (snd p))
           (filter (\<lambda>p. toLowerCase (db_gender (snd p)) = ''female'') ps))"
  "st_femaleRevenue (foldl pair_step st ps)
     = st_femaleRevenue st
       + sum_list (map (\<lambda>p. allocatedRevenue (fst p) (snd p))
           (filter (\<lambda>p. toLowerCase (db_gender (snd p)) = ''female'') ps))"
  by (induction ps arbitrary: st) (simp_all add: step_female)

lemma allocated_spec:
  "allocatedSpend c b = spec_allocated (c_spend c) (db_percentage_of_audience b)"
  "allocatedRevenue c b = spec_allocated (c_revenue c) (db_percentage_of_audience b)"
  by (simp_all add: allocatedSpend_def allocatedRevenue_def audiencePercentage_def
      spec_allocated_def)

lemma gender_totals:
  "maleClicks (demographicMetrics (Some cs))
     = sum_list (map (\<lambda>p. pf_clicks (db_performance (snd p))) (gender_pairs ''male'' cs))"
  "maleSpend (demographicMetrics (Some cs))
     = sum_list (map (\<lambda>p. allocatedSpend (fst p) (snd p)) (gender_pairs ''male'' cs))"
  "maleRevenue (demographicMetrics (Some cs))
     = sum_list (map (\<lambda>p. allocatedRevenue (fst p) (snd p)) (gender_pairs ''male'' cs))"
  "femaleClicks (demographicMetrics (Some cs))
     = sum_list (map (\<lambda>p. pf_clicks (db_performance (snd p))) (gender_pairs ''female'' cs))"
  "femaleSpend (demographicMetrics (Some cs))
     = sum_list (map (\<lambda>p. allocatedSpend (fst p) (snd p)) (gender_pairs ''female'' cs))"
  "femaleRevenue (demographicMetrics (Some cs))
     = sum_list (map (\<lambda>p. allocatedRevenue (fst p) (snd p)) (gender_pairs ''female'' cs))"
  by (simp_all add: demographicMetrics_def Let_def demographic_loop_pairs fold_male fold_female
      gender_pairs_def initial_state_def)

text \<open>
  Claim C8. Each gender total is a sum over the breakdown entries, of all campaigns, whose
  gender field is \<open>male\<close> (or \<open>female\<close>) once put in lower case: the clicks total adds the
  entry's own \<open>performance.clicks\<close>, unscaled; the spend and revenue totals add the campaign's
  spend and revenue times \<open>percentage_of_audience / 100\<close>. An entry with another gender is in
  neither sum.
\<close>

theorem gender_totals_allocated:
  "maleClicks (demographicMetrics (Some campaigns))
     = sum_list (map (\<lambda>p. pf_clicks (db_performance (snd p))) (gender_pairs ''male'' campaigns))
   \<and> maleSpend (demographicMetrics (Some campaigns))
     = sum_list (map (\<lambda>p. spec_allocated (c_spend (fst p)) (db_percentage_of_audience (snd p)))
         (gender_pairs ''male'' campaigns))
   \<and> maleRevenue (demographicMetrics (Some campaigns))
     = sum_list (map (\<lambda>p. spec_allocated (c_revenue (fst p)) (db_percentage_of_audience (snd p)))
         (gender_pairs ''male'' campaigns))
   \<and> femaleClicks (demographicMetrics (Some campaigns))
     = sum_list (map (\<lambda>p. pf_clicks (db_performance (snd p))) (gender_pairs ''female'' campaigns))
   \<and> femaleSpend (demographicMetrics (Some campaigns))
     = sum_list (map (\<lambda>p. spec_allocated (c_spend (fst p)) (db_percentage_of_audience (snd p)))
         (gender_pairs ''female'' campaigns))
   \<and> femaleRevenue (demographicMetrics (Some campaigns))
     = sum_list (map (\<lambda>p. spec_allocated (c_revenue (fst p)) (db_percentage_of_audience (snd p)))
         (gender_pairs ''female'' campaigns))"
  by (simp add: gender_totals allocated_spec)

text \<open>
  The sample campaign (spend 1000, revenue 2000) has the genders \<open>MALE\<close> (50 per cent, 50
  clicks), \<open>Female\<close> (30 per cent, 80 clicks) and \<open>Other\<close> (20 per cent, 7 clicks).
\<close>

theorem gender_totals_allocated_witness:
  "map (\<lambda>p. db_gender (snd p)) (gender_pairs ''male'' [gender_campaign]) = [''MALE'']
   \<and> map (\<lambda>p. db_gender (snd p)) (gender_pairs ''female'' [gender_campaign]) = [''Female'']
   \<and> maleClicks (demographicMetrics (Some [gender_campaign])) = 50
   \<and> maleSpend (demographicMetrics (Some [gender_campaign])) = 500
   \<and> maleRevenue (demographicMetrics (Some [gender_campaign])) = 1000
   \<and> femaleClicks (demographicMetrics (Some [gender_campaign])) = 80
   \<and> femaleSpend (demographicMetrics (Some [gender_campaign])) = 300
   \<and> femaleRevenue (demographicMetrics (Some [gender_campaign])) = 600"
proof -
  have m: "map (\<lambda>p. db_gender (snd p)) (gender_pairs ''male'' [gender_campaign]) = [''MALE'']"
    and f: "map (\<lambda>p. db_gender (snd p)) (gender_pairs ''female'' [gender_campaign]) = [''Female'']"
    by code_simp+
  have sums:
    "sum_list (map (\<lambda>p. pf_clicks (db_performance (snd p))) (gender_pairs ''male'' [gender_campaign])) = 50"
    "sum_list (map (\<lambda>p. spec_allocated (c_spend (fst p)) (db_percentage_of_audience (snd p)))
         (gender_pairs ''male'' [gender_campaign])) = 500"
    "sum_list (map (\<lambda>p. spec_allocated (c_revenue (fst p)) (db_percentage_of_audience (snd p)))
         (gender_pairs ''male'' [gender_campaign])) = 1000"
    "sum_list (map (\<lambda>p. pf_clicks (db_performance (snd p))) (gender_pairs ''female'' [gender_campaign])) = 80"
    "sum_list (map (\<lambda>p. spec_allocated (c_spend (fst p)) (db_percentage_of_audience (snd p)))
         (gender_pairs ''female'' [gender_campaign])) = 300"
    "sum_list (map (\<lambda>p. spec_allocated (c_revenue (fst p)) (db_percentage_of_audience (snd p)))
         (gender_pairs ''female'' [gender_campaign])) = 600"
    by code_simp+
  from m f sums gender_totals_allocated [of "[gender_campaign]"] show ?thesis by simp
qed

subsection \<open>Amounts by age group\<close>

lemma foldl_plus: "foldl (\<lambda>v p. v + f p) a ps = a + sum_list (map f ps)"
  for a :: rat
  by (induction ps arbitrary: a) simp_all

lemma amount_step_group:
  "add_amount (key p) (f p) (init_zero (key p) m)
     = group_step key (\<lambda>p. 0 + f p) (\<lambda>v p. v + f p) m p"
proof (cases "map_of m (key p)")
  case None
  then show ?thesis
    by (simp add: init_zero_def add_amount_def group_step_def update_conv')
next
  case (Some v)
  then have "init_zero (key p) m = m"
    by (simp add: init_zero_def update_triv)
  with Some show ?thesis
    by (simp add: add_amount_def group_step_def)
qed

lemma fold_amounts:
  "ageGroupSpendMap (foldl pair_step st ps)
     = foldl (group_step (\<lambda>p. db_age_group (snd p)) (\<lambda>p. 0 + allocatedSpend (fst p) (snd p))
               (\<lambda>v p. v + allocatedSpend (fst p) (snd p)))
         (ageGroupSpendMap st) ps"
  "ageGroupRevenueMap (foldl pair_step st ps)
     = foldl (group_step (\<lambda>p. db_age_group (snd p)) (\<lambda>p. 0 + allocatedRevenue (fst p) (snd p))
               (\<lambda>v p. v + allocatedRevenue (fst p) (snd p)))
         (ageGroupRevenueMap st) ps"
proof (induction ps arbitrary: st)
  case Nil
  { case 1 show ?case by simp }
  { case 2 show ?case by simp }
next
  case (Cons p ps)
  { case 1
    show ?case
      using amount_step_group
        [of "\<lambda>p. db_age_group (snd p)" p "\<lambda>p. allocatedSpend (fst p) (snd p)" "ageGroupSpendMap st"]
      by (simp add: Cons.IH(1) step_amounts) }
  { case 2
    show ?case
      using amount_step_group
        [of "\<lambda>p. db_age_group (snd p)" p "\<lambda>p. allocatedRevenue (fst p) (snd p)" "ageGroupRevenueMap st"]
      by (simp add: Cons.IH(2) step_amounts) }
qed


lemma find_by_key: "find (\<lambda>e. fst e = k) es = map_option (Pair k) (map_of es k)"
  by (induction es) auto

lemma find_map: "find P (map f xs) = map_option f (find (\<lambda>x. P (f x)) xs)"
  by (induction xs) simp_all

lemma amount_at_entries:
  "distinct (map fst m) \<Longrightarrow>
   amount_at k (map (amount_point colour) (object_entries m))
     = (case map_of m k of None \<Rightarrow> 0 | Some v \<Rightarrow> v)"
  by (simp add: amount_at_def find_map amount_point_def find_by_key object_entries_def
      own_property_order_lookup split: option.splits)

lemma amount_maps_lookup:
  "map_of (ageGroupSpendMap (demographic_loop cs)) a
     = (if age_pairs a cs = [] then None
        else Some (sum_list (map (\<lambda>p. allocatedSpend (fst p) (snd p)) (age_pairs a cs))))"
  "map_of (ageGroupRevenueMap (demographic_loop cs)) a
     = (if age_pairs a cs = [] then None
        else Some (sum_list (map (\<lambda>p. allocatedRevenue (fst p) (snd p)) (age_pairs a cs))))"
  by (simp_all add: demographic_loop_pairs fold_amounts initial_state_def group_fold_lookup
      foldl_plus age_pairs_def with_key_def split: list.splits)

lemma amount_maps_distinct:
  "distinct (map fst (ageGroupSpendMap (demographic_loop cs)))"
  "distinct (map fst (ageGroupRevenueMap (demographic_loop cs)))"
  by (simp_all add: demographic_loop_pairs fold_amounts initial_state_def group_fold_distinct)

lemma amounts_by_age_group:
  "amount_at a (ageGroupSpend (demographicMetrics (Some cs)))
     = sum_list (map (\<lambda>p. allocatedSpend (fst p) (snd p)) (age_pairs a cs))"
  "amount_at a (ageGroupRevenue (demographicMetrics (Some cs)))
     = sum_list (map (\<lambda>p. allocatedRevenue (fst p) (snd p)) (age_pairs a cs))"
  by (simp_all add: demographicMetrics_def Let_def amount_at_entries amount_maps_distinct
      amount_maps_lookup)

text \<open>
  Claim C7. The spend and the revenue that the aggregator allocates to a breakdown entry
  are the campaign's total times \<open>percentage_of_audience / 100\<close>. When no age-group label is
  inherited from \<open>Object.prototype\<close>, the amount reported for an age group is the sum of
  these allocations over the entries of that age group. On the campaign with spend 1000,
  revenue 2000 and two entries of 60 and 40 per cent, the allocated spend is 600 and 400,
  the allocated revenue 1200 and 800, and they add up to the campaign's totals.
\<close>

theorem allocation_by_audience_share:
  "allocatedSpend c b = spec_allocated (c_spend c) (db_percentage_of_audience b)
   \<and> allocatedRevenue c b = spec_allocated (c_revenue c) (db_percentage_of_audience b)
   \<and> ((\<forall>p \<in> set (breakdown_pairs campaigns). \<not> inherited_key (db_age_group (snd p))) \<longrightarrow>
        amount_at a (ageGroupSpend (demographicMetrics (Some campaigns)))
          = sum_list
              (map (\<lambda>p. spec_allocated (c_spend (fst p)) (db_percentage_of_audience (snd p)))
                (age_pairs a campaigns))
        \<and> amount_at a (ageGroupRevenue (demographicMetrics (Some campaigns)))
          = sum_list
              (map (\<lambda>p. spec_allocated (c_revenue (fst p)) (db_percentage_of_audience (snd p)))
                (age_pairs a campaigns)))
   \<and> c_spend allocation_campaign = 1000 \<and> c_revenue allocation_campaign = 2000
   \<and> map db_percentage_of_audience (demographic_breakdown allocation_campaign) = [60, 40]
   \<and> map (\<lambda>p. (cp_label p, cp_value p))
        (ageGroupSpend (demographicMetrics (Some [allocation_campaign])))
       = [(''18-24'', 600), (''25-34'', 400)]
   \<and> map (\<lambda>p. (cp_label p, cp_value p))
        (ageGroupRevenue (demographicMetrics (Some [allocation_campaign])))
       = [(''18-24'', 1200), (''25-34'', 800)]
   \<and> maleSpend (demographicMetrics (Some [allocation_campaign])) = 600
   \<and> femaleSpend (demographicMetrics (Some [allocation_campaign])) = 400
   \<and> maleRevenue (demographicMetrics (Some [allocation_campaign])) = 1200
   \<and> femaleRevenue (demographicMetrics (Some [allocation_campaign])) = 800
   \<and> sum_list (map cp_value (ageGroupSpend (demographicMetrics (Some [allocation_campaign]))))
       = c_spend allocation_campaign
   \<and> sum_list (map cp_value (ageGroupRevenue (demographicMetrics (Some [allocation_campaign]))))
       = c_revenue allocation_campaign"
proof -
  have entry:
    "allocatedSpend c b = spec_allocated (c_spend c) (db_percentage_of_audience b)"
    "allocatedRevenue c b = spec_allocated (c_revenue c) (db_percentage_of_audience b)"
    by (simp_all add: allocated_spec)
  have groups:
    "(\<forall>p \<in> set (breakdown_pairs campaigns). \<not> inherited_key (db_age_group (snd p))) \<longrightarrow>
        amount_at a (ageGroupSpend (demographicMetrics (Some campaigns)))
          = sum_list
              (map (\<lambda>p. spec_allocated (c_spend (fst p)) (db_percentage_of_audience (snd p)))
                (age_pairs a campaigns))
        \<and> amount_at a (ageGroupRevenue (demographicMetrics (Some campaigns)))
          = sum_list
              (map (\<lambda>p. spec_allocated (c_revenue (fst p)) (db_percentage_of_audience (snd p)))
                (age_pairs a campaigns))"
    by (simp add: amounts_by_age_group allocated_spec)
  have example:
    "c_spend allocation_campaign = 1000" "c_revenue allocation_campaign = 2000"
    "map db_percentage_of_audience (demographic_breakdown allocation_campaign) = [60, 40]"
    "map (\<lambda>p. (cp_label p, cp_value p))
        (ageGroupSpend (demographicMetrics (Some [allocation_campaign])))
       = [(''18-24'', 600), (''25-34'', 400)]"
    "map (\<lambda>p. (cp_label p, cp_value p))
        (ageGroupRevenue (demographicMetrics (Some [allocation_campaign])))
       = [(''18-24'', 1200), (''25-34'', 800)]"
    "maleSpend (demographicMetrics (Some [allocation_campaign])) = 600"
    "femaleSpend (demographicMetrics (Some [allocation_campaign])) = 400"
    "maleRevenue (demographicMetrics (Some [allocation_campaign])) = 1200"
    "femaleRevenue (demographicMetrics (Some [allocation_campaign])) = 800"
    "sum_list (map cp_value (ageGroupSpend (demographicMetrics (Some [allocation_campaign]))))
       = c_spend allocation_campaign"
    "sum_list (map cp_value (ageGroupRevenue (demographicMetrics (Some [allocation_campaign]))))
       = c_revenue allocation_campaign"
    by code_simp+
  from entry groups example show ?thesis by (intro conjI)
qed

text \<open>
  The labels of the example, \<open>18-24\<close> and \<open>25-34\<close>, are not inherited; the general statement
  is read at these two age groups.
\<close>

theorem allocation_by_audience_share_witness:
  "amount_at ''18-24'' (ageGroupSpend (demographicMetrics (Some [allocation_campaign]))) = 600
   \<and> amount_at ''25-34'' (ageGroupSpend (demographicMetrics (Some [allocation_campaign]))) = 400
   \<and> amount_at ''18-24'' (ageGroupRevenue (demographicMetrics (Some [allocation_campaign]))) = 1200
   \<and> amount_at ''25-34'' (ageGroupRevenue (demographicMetrics (Some [allocation_campaign]))) = 800"
proof -
  have plain: "\<forall>p \<in> set (breakdown_pairs [allocation_campaign]).
      \<not> inherited_key (db_age_group (snd p))"
    by code_simp
  have sums:
    "sum_list (map (\<lambda>p. spec_allocated (c_spend (fst p)) (db_percentage_of_audience (snd p)))
           (age_pairs ''18-24'' [allocation_campaign])) = 600"
    "sum_list (map (\<lambda>p. spec_allocated (c_spend (fst p)) (db_percentage_of_audience (snd p)))
           (age_pairs ''25-34'' [allocation_campaign])) = 400"
    "sum_list (map (\<lambda>p. spec_allocated (c_revenue (fst p)) (db_percentage_of_audience (snd p)))
           (age_pairs ''18-24'' [allocation_campaign])) = 1200"
    "sum_list (map (\<lambda>p. spec_allocated (c_revenue (fst p)) (db_percentage_of_audience (snd p)))
           (age_pairs ''25-34'' [allocation_campaign])) = 800"
    by code_simp+
  note young = allocation_by_audience_share [of _ _ "[allocation_campaign]" "''18-24''"]
  note older = allocation_by_audience_share [of _ _ "[allocation_campaign]" "''25-34''"]
  from plain young have
    "amount_at ''18-24'' (ageGroupSpend (demographicMetrics (Some [allocation_campaign])))
       = sum_list
           (map (\<lambda>p. spec_allocated (c_spend (fst p)) (db_percentage_of_audience (snd p)))
             (age_pairs ''18-24'' [allocation_campaign]))"
    "amount_at ''18-24'' (ageGroupRevenue (demographicMetrics (Some [allocation_campaign])))
       = sum_list
           (map (\<lambda>p. spec_allocated (c_revenue (fst p)) (db_percentage_of_audience (snd p)))
             (age_pairs ''18-24'' [allocation_campaign]))"
    by blast+
  moreover from plain older have
    "amount_at ''25-34'' (ageGroupSpend (demographicMetrics (Some [allocation_campaign])))
       = sum_list
           (map (\<lambda>p. spec_allocated (c_spend (fst p)) (db_percentage_of_audience (snd p)))
             (age_pairs ''25-34'' [allocation_campaign]))"
    "amount_at ''25-34'' (ageGroupRevenue (demographicMetrics (Some [allocation_campaign])))
       = sum_list
           (map (\<lambda>p. spec_allocated (c_revenue (fst p)) (db_percentage_of_audience (snd p)))
             (age_pairs ''25-34'' [allocation_campaign]))"
    by blast+
  ultimately show ?thesis by (simp only: sums)
qed

section \<open>The dataset without campaigns\<close>

lemma object_of_nothing: "object_values [] = []" "object_entries [] = []"
  by (simp_all add: object_values_def object_entries_def own_property_order_def)

text \<open>
  Claim C2, as the code has it. On the absent dataset every aggregator returns zero
  totals and empty collections; the weekly result then has no \<open>weeklyData\<close> at all. On the
  empty campaign list the regional, weekly and demographic aggregators return the same
  zero totals and empty collections. The device aggregator returns, on the empty list,
  zero counters, \<open>ctr\<close>, \<open>conversion_rate\<close> and \<open>campaignCount\<close> and an empty row list, but the
  traffic share of either bucket is \<open>0 / 0 * 100\<close>, which is \<open>NaN\<close>, and its three chart
  series hold the points \<open>Mobile\<close> and \<open>Desktop\<close> with value \<open>0\<close>. The aggregators are total
  functions: none of them throws.
\<close>

theorem empty_dataset_results:
  "regionalMetrics key None = no_regional
   \<and> regionalMetrics key (Some []) = no_regional
   \<and> weeklyMetrics getTime toLocaleDateString None = no_weekly None
   \<and> weeklyMetrics getTime toLocaleDateString (Some []) = no_weekly (Some [])
   \<and> demographicMetrics None = no_demographic
   \<and> demographicMetrics (Some []) = no_demographic
   \<and> deviceMetrics None
       = \<lparr>mobile = zero_bucket, desktop = zero_bucket, deviceComparison = [],
          performanceByCampaign = [], roasComparison = [], conversionRateComparison = []\<rparr>
   \<and> deviceMetrics (Some [])
       = \<lparr>mobile = nan_bucket, desktop = nan_bucket, deviceComparison = two_points 0 0,
          performanceByCampaign = [], roasComparison = two_points 0 0,
          conversionRateComparison = two_points 0 0\<rparr>"
proof -
  have regional: "regionalMetrics key None = no_regional"
    "regionalMetrics key (Some []) = no_regional"
    by (simp_all add: regionalMetrics_def no_regional_def build_regionMap_def object_of_nothing
        region_totals_def zero_totals_def find_topRegion_def)
  have weekly: "weeklyMetrics getTime toLocaleDateString None = no_weekly None"
    "weeklyMetrics getTime toLocaleDateString (Some []) = no_weekly (Some [])"
    by (simp_all add: weeklyMetrics_def no_weekly_def build_weeklyMap_def object_of_nothing
        array_sort_def week_totals_def zero_totals_def)
  have demographic: "demographicMetrics None = no_demographic"
    "demographicMetrics (Some []) = no_demographic"
    by (simp_all add: demographicMetrics_def no_demographic_def demographic_loop_def
        initial_state_def object_of_nothing)
  have device_absent: "deviceMetrics None
       = \<lparr>mobile = zero_bucket, desktop = zero_bucket, deviceComparison = [],
          performanceByCampaign = [], roasComparison = [], conversionRateComparison = []\<rparr>"
    by (simp add: deviceMetrics_def)
  have device_empty: "deviceMetrics (Some [])
       = \<lparr>mobile = nan_bucket, desktop = nan_bucket, deviceComparison = two_points 0 0,
          performanceByCampaign = [], roasComparison = two_points 0 0,
          conversionRateComparison = two_points 0 0\<rparr>"
    by (simp add: deviceMetrics_def device_loop_def finish_bucket_def zero_bucket_def
        nan_bucket_def js_div_def)
  from regional weekly demographic device_absent device_empty show ?thesis
    by (intro conjI)
qed

text \<open>
  The claim as written fails for the device aggregator on the empty campaign list: the
  traffic share of both buckets is \<open>NaN\<close>, not zero.
\<close>

theorem empty_list_traffic_share_is_nan:
  "b_percentage_of_traffic (mobile (deviceMetrics (Some []))) = NaN
   \<and> b_percentage_of_traffic (desktop (deviceMetrics (Some []))) = NaN
   \<and> b_percentage_of_traffic (mobile (deviceMetrics (Some []))) \<noteq> Fin 0
   \<and> b_percentage_of_traffic (desktop (deviceMetrics (Some []))) \<noteq> Fin 0"
  by (simp add: deviceMetrics_def device_loop_def finish_bucket_def zero_bucket_def js_div_def)

theorem empty_dataset_results_witness:
  "totalRevenue (regionalMetrics Revenue (Some [])) = 0
   \<and> regionalData (regionalMetrics Revenue (Some [])) = []
   \<and> maleSpend (demographicMetrics (Some [])) = 0
   \<and> b_ctr (mobile (deviceMetrics (Some []))) = 0
   \<and> b_percentage_of_traffic (mobile (deviceMetrics (Some []))) = NaN
   \<and> b_percentage_of_traffic (mobile (deviceMetrics None)) = Fin 0"
  using empty_dataset_results [of Revenue]
  by (simp add: no_regional_def no_demographic_def nan_bucket_def zero_bucket_def)

section \<open>Properties of the weekly aggregator\<close>

lemma week_step_group: "week_step = group_step weekKey (\<lambda>w. w) add_week"
  by (intro ext) (simp add: week_step_def group_step_def)

lemma build_weeklyMap_eq:
  "build_weeklyMap cs = foldl (group_step weekKey (\<lambda>w. w) add_week) [] (week_entries cs)"
  by (simp add: build_weeklyMap_def nested_foldl week_entries_def week_step_group)

lemma weeklyMap_keys: "fst ` set (build_weeklyMap cs) = weekKey ` set (week_entries cs)"
proof -
  have "set (map fst (build_weeklyMap cs)) = set (map weekKey (week_entries cs))"
    by (simp only: build_weeklyMap_eq group_fold_keys first_occurrences_set)
  then show ?thesis by simp
qed

lemma weeklyMap_keys_plain: "\<forall>p \<in> set (build_weeklyMap cs). \<not> is_array_index (fst p)"
proof
  fix p assume "p \<in> set (build_weeklyMap cs)"
  then have "fst p \<in> weekKey ` set (week_entries cs)"
    using weeklyMap_keys by blast
  then show "\<not> is_array_index (fst p)"
    by (auto simp: weekKey_def underscore_not_index)
qed

lemma weeklyMap_values: "object_values (build_weeklyMap cs) = map snd (build_weeklyMap cs)"
  by (simp add: object_values_def own_property_order_plain weeklyMap_keys_plain)

lemma weeklyMap_distinct: "distinct (map fst (build_weeklyMap cs))"
  by (simp add: build_weeklyMap_eq group_fold_distinct)

lemma add_week_fields:
  "wp_week_start (add_week w e) = wp_week_start w"
  "wp_week_end (add_week w e) = wp_week_end w"
  "weekKey (add_week w e) = weekKey w"
  by (simp_all add: add_week_def weekKey_def)

lemma fold_week_fields:
  "wp_week_start (foldl add_week w es) = wp_week_start w"
  "weekKey (foldl add_week w es) = weekKey w"
  by (induction es arbitrary: w) (simp_all add: add_week_fields)



text \<open>Every group of the map is the fold of the entries that carry its key.\<close>

lemma weeklyMap_member:
  assumes "p \<in> set (build_weeklyMap cs)"
  shows "\<exists>e rest. with_key weekKey (fst p) (week_entries cs) = e # rest
           \<and> snd p = foldl add_week e rest \<and> weekKey e = fst p"
proof -
  from assms have "map_of (build_weeklyMap cs) (fst p) = Some (snd p)"
    using weeklyMap_distinct by simp
  then obtain e rest where w: "with_key weekKey (fst p) (week_entries cs) = e # rest"
    and g: "snd p = foldl add_week e rest"
    by (auto simp: build_weeklyMap_eq group_fold_lookup split: list.splits)
  from w have "e \<in> set (with_key weekKey (fst p) (week_entries cs))" by simp
  then have "weekKey e = fst p" by (simp add: with_key_def)
  with w g show ?thesis by blast
qed

lemma weeklyMap_entry_key: "p \<in> set (build_weeklyMap cs) \<Longrightarrow> weekKey (snd p) = fst p"
  using weeklyMap_member [of p cs] by (auto simp: fold_week_fields)

lemma weeklyMap_entry_start:
  "p \<in> set (build_weeklyMap cs) \<Longrightarrow>
   \<exists>e \<in> set (week_entries cs). wp_week_start (snd p) = wp_week_start e"
proof -
  assume "p \<in> set (build_weeklyMap cs)"
  then obtain e rest where w: "with_key weekKey (fst p) (week_entries cs) = e # rest"
    and g: "snd p = foldl add_week e rest"
    using weeklyMap_member by blast
  from w have "e \<in> set (with_key weekKey (fst p) (week_entries cs))" by simp
  then have "e \<in> set (week_entries cs)" by (simp add: with_key_def)
  with g show ?thesis by (auto simp: fold_week_fields)
qed

subsection \<open>Sorting\<close>

lemma sort_insert_set: "set (sort_insert cmp x ys) = insert x (set ys)"
  by (induction ys) (auto split: option.splits)

lemma array_sort_set: "set (array_sort cmp xs) = set xs"
  by (induction xs) (simp_all add: array_sort_def sort_insert_set)

lemma sort_insert_distinct:
  "distinct (map f (sort_insert cmp x ys)) = (f x \<notin> f ` set ys \<and> distinct (map f ys))"
  by (induction ys) (auto simp: sort_insert_set split: option.splits)

lemma array_sort_distinct: "distinct (map f (array_sort cmp xs)) = distinct (map f xs)"
  by (induction xs) (simp_all add: array_sort_def sort_insert_distinct sort_insert_set
      array_sort_set [unfolded array_sort_def])

lemma array_sort_length: "length (array_sort cmp xs) = length xs"
proof (induction xs)
  case Nil
  then show ?case by (simp add: array_sort_def)
next
  case (Cons x xs)
  have "length (sort_insert cmp x ys) = Suc (length ys)" for ys
    by (induction ys) (simp_all split: option.splits)
  with Cons show ?case by (simp add: array_sort_def)
qed

lemma sort_insert_chronological:
  assumes "getTime (wp_week_start x) \<noteq> None"
    and "\<forall>y \<in> set ys. getTime (wp_week_start y) \<noteq> None"
    and "sorted_wrt (chronological getTime) ys"
  shows "sorted_wrt (chronological getTime) (sort_insert (week_compare getTime) x ys)"
  using assms
proof (induction ys)
  case Nil
  then show ?case by simp
next
  case (Cons y ys)
  from Cons.prems obtain tx ty where t: "getTime (wp_week_start x) = Some tx"
    "getTime (wp_week_start y) = Some ty"
    by auto
  show ?case
  proof (cases "tx - ty > 0")
    case True
    with t Cons show ?thesis
      by (auto simp add: week_compare_def sort_insert_set chronological_def)
  next
    case False
    have "chronological getTime x z" if "z \<in> set ys" for z
    proof -
      from that Cons.prems have "chronological getTime y z" by simp
      with t False show ?thesis
        by (auto simp: chronological_def split: option.splits)
    qed
    with t False Cons.prems show ?thesis
      by (auto simp add: week_compare_def chronological_def)
  qed
qed

lemma array_sort_chronological:
  "\<forall>y \<in> set xs. getTime (wp_week_start y) \<noteq> None \<Longrightarrow>
   sorted_wrt (chronological getTime) (array_sort (week_compare getTime) xs)"
proof (induction xs)
  case Nil
  then show ?case by (simp add: array_sort_def)
next
  case (Cons x xs)
  then have "sorted_wrt (chronological getTime) (array_sort (week_compare getTime) xs)"
    by simp
  moreover from Cons.prems
  have "\<forall>y \<in> set (array_sort (week_compare getTime) xs). getTime (wp_week_start y) \<noteq> None"
    by (simp add: array_sort_set)
  ultimately show ?case
    using Cons.prems sort_insert_chronological [of getTime x "array_sort (week_compare getTime) xs"]
    by (simp add: array_sort_def)
qed

lemma weeklyData_eq:
  "weeklyData (weeklyMetrics getTime fmt (Some cs))
     = Some (array_sort (week_compare getTime) (map snd (build_weeklyMap cs)))"
  by (simp add: weeklyMetrics_def Let_def weeklyMap_values)

text \<open>
  Claim C4. When the week start of every weekly entry parses, \<open>weeklyData\<close> is in ascending
  order of the parsed week starts, and it holds one row for each key among the entries.
  The three entries that arrive as February, January, March 2024 come out as January,
  February, March.
\<close>

theorem weekly_rows_chronological:
  "((\<forall>c \<in> set campaigns. \<forall>w \<in> set (weekly_performance c). getTime (wp_week_start w) \<noteq> None)
    \<longrightarrow> (\<exists>rows. weeklyData (weeklyMetrics getTime toLocaleDateString (Some campaigns)) = Some rows
          \<and> sorted_wrt (chronological getTime) rows
          \<and> distinct (map weekKey rows)
          \<and> set (map weekKey rows) = set (map weekKey (week_entries campaigns))))
   \<and> map wp_week_start (week_entries week_campaigns)
       = [''2024-02-01'', ''2024-01-01'', ''2024-03-01'']
   \<and> map_option (map wp_week_start)
       (weeklyData (weeklyMetrics example_getTime example_label (Some week_campaigns)))
       = Some [''2024-01-01'', ''2024-02-01'', ''2024-03-01'']"
proof -
  have general: "\<exists>rows. weeklyData (weeklyMetrics getTime toLocaleDateString (Some campaigns)) = Some rows
         \<and> sorted_wrt (chronological getTime) rows
         \<and> distinct (map weekKey rows)
         \<and> set (map weekKey rows) = set (map weekKey (week_entries campaigns))"
    if parse: "\<forall>c \<in> set campaigns. \<forall>w \<in> set (weekly_performance c).
      getTime (wp_week_start w) \<noteq> None"
  proof -
    let ?groups = "map snd (build_weeklyMap campaigns)"
    let ?rows = "array_sort (week_compare getTime) ?groups"
    have "\<forall>e \<in> set (week_entries campaigns). getTime (wp_week_start e) \<noteq> None"
      using parse by (auto simp: week_entries_def)
    then have "\<forall>y \<in> set ?groups. getTime (wp_week_start y) \<noteq> None"
      using weeklyMap_entry_start [of _ campaigns] by fastforce
    then have sorted: "sorted_wrt (chronological getTime) ?rows"
      by (rule array_sort_chronological)
    have keys: "map weekKey ?groups = map fst (build_weeklyMap campaigns)"
      by (simp add: weeklyMap_entry_key)
    have "distinct (map weekKey ?groups)"
      using weeklyMap_distinct [of campaigns] by (simp only: keys)
    then have dist: "distinct (map weekKey ?rows)"
      by (simp only: array_sort_distinct)
    have "set (map weekKey ?rows) = set (map weekKey ?groups)"
      by (simp only: set_map array_sort_set)
    also have "\<dots> = set (map weekKey (week_entries campaigns))"
      using weeklyMap_keys [of campaigns] by (simp only: keys) simp
    finally have same: "set (map weekKey ?rows) = set (map weekKey (week_entries campaigns))" .
    from sorted dist same show ?thesis
      by (simp only: weeklyData_eq) blast
  qed
  have example: "map wp_week_start (week_entries week_campaigns)
       = [''2024-02-01'', ''2024-01-01'', ''2024-03-01'']"
    "map_option (map wp_week_start)
       (weeklyData (weeklyMetrics example_getTime example_label (Some week_campaigns)))
       = Some [''2024-01-01'', ''2024-02-01'', ''2024-03-01'']"
    by code_simp+
  from general example show ?thesis by blast
qed

text \<open>The premise holds on the example: its three dates parse.\<close>

theorem weekly_rows_chronological_witness:
  "map_option (sorted_wrt (chronological example_getTime))
     (weeklyData (weeklyMetrics example_getTime example_label (Some week_campaigns))) = Some True
   \<and> map_option (map wp_week_start)
       (weeklyData (weeklyMetrics example_getTime example_label (Some week_campaigns)))
     = Some [''2024-01-01'', ''2024-02-01'', ''2024-03-01'']
   \<and> map_option (map wp_revenue)
       (weeklyData (weeklyMetrics example_getTime example_label (Some week_campaigns)))
     = Some [300, 600, 900]"
proof -
  have parse: "\<forall>c \<in> set week_campaigns. \<forall>w \<in> set (weekly_performance c).
      example_getTime (wp_week_start w) \<noteq> None"
    by code_simp
  with weekly_rows_chronological [of week_campaigns example_getTime example_label]
  obtain rows
    where rows: "weeklyData (weeklyMetrics example_getTime example_label (Some week_campaigns))
        = Some rows"
      and sorted: "sorted_wrt (chronological example_getTime) rows"
    by blast
  have starts: "map_option (map wp_week_start)
       (weeklyData (weeklyMetrics example_getTime example_label (Some week_campaigns)))
     = Some [''2024-01-01'', ''2024-02-01'', ''2024-03-01'']"
    and revenues: "map_option (map wp_revenue)
       (weeklyData (weeklyMetrics example_getTime example_label (Some week_campaigns)))
     = Some [300, 600, 900]"
    by code_simp+
  from rows sorted have "map_option (sorted_wrt (chronological example_getTime))
     (weeklyData (weeklyMetrics example_getTime example_label (Some week_campaigns))) = Some True"
    by simp
  with starts revenues show ?thesis by (intro conjI)
qed

section \<open>Additivity\<close>













subsection \<open>Regional\<close>




subsection \<open>Weekly\<close>




subsection \<open>Device\<close>








subsection \<open>Demographic\<close>






lemma set_rates_counts: "age_data_counts (set_rates d) = age_data_counts d"
  by (simp add: set_rates_def age_data_counts_def)










end
